theory Spec2Isabelle
  imports Complex_Main "HOL-Library.AList"
begin

section \<open>Python strings, dictionaries and \<open>int()\<close>\<close>

text \<open>
  The service is a Flask application (\<^verbatim>\<open>server.py\<close>) with a payment verifier
  (\<^verbatim>\<open>payment_verifier_solana.py\<close>). Header values are modelled as \<open>string\<close>
  (one \<open>char\<close> per Latin-1 code point, as WSGI delivers them), Python dictionaries
  as association lists in insertion order (\<open>map_of\<close> reads a key,
  \<open>AList.update\<close> assigns one), and Python's unbounded integers as \<open>int\<close>.
  A Python float is a rational number; it is represented by the decimal value of its
  \<^verbatim>\<open>repr\<close>, so that \<^verbatim>\<open>str\<close>, \<^verbatim>\<open>Decimal(str(x))\<close> and the JSON files keep it as
  it is. Arithmetic that rounds is not computed here: it is a parameter (\<open>Arith\<close>).
\<close>

type_synonym ('k, 'v) dict = "('k \<times> 'v) list"

text \<open>\<^verbatim>\<open>x or ''\<close> for an optional string.\<close>

definition or_empty :: "string option \<Rightarrow> string" where
  "or_empty x = (case x of None \<Rightarrow> [] | Some a \<Rightarrow> a)"

text \<open>\<^verbatim>\<open>str.isspace\<close> on the code points below 256.\<close>

definition py_isspace :: "char \<Rightarrow> bool" where
  "py_isspace c \<longleftrightarrow>
     (let n = (of_char c :: nat) in (9 \<le> n \<and> n \<le> 13) \<or> (28 \<le> n \<and> n \<le> 32) \<or> n = 133 \<or> n = 160)"

text \<open>\<^verbatim>\<open>s.strip()\<close>\<close>

definition strip :: "string \<Rightarrow> string" where
  "strip s = rev (dropWhile py_isspace (rev (dropWhile py_isspace s)))"

text \<open>\<^verbatim>\<open>s.split(sep)\<close> for a one-character separator: never an empty list.\<close>

fun str_split :: "char \<Rightarrow> string \<Rightarrow> string list" where
  "str_split sep [] = [[]]"
| "str_split sep (c # cs) =
     (if c = sep then [] # str_split sep cs
      else (case str_split sep cs of [] \<Rightarrow> [[c]] | w # ws \<Rightarrow> (c # w) # ws))"

text \<open>\<^verbatim>\<open>s.split(sep, 1)\<close> when \<^verbatim>\<open>sep in s\<close>: the text before and after the first \<open>sep\<close>.\<close>

definition split1 :: "char \<Rightarrow> string \<Rightarrow> string \<times> string" where
  "split1 sep s = (takeWhile (\<lambda>c. c \<noteq> sep) s, tl (dropWhile (\<lambda>c. c \<noteq> sep) s))"

text \<open>\<^verbatim>\<open>str.lower\<close> on the code points below 256 (ASCII and Latin-1 capitals).\<close>

definition lower_char :: "char \<Rightarrow> char" where
  "lower_char c =
     (let n = (of_char c :: nat) in
      if (65 \<le> n \<and> n \<le> 90) \<or> (192 \<le> n \<and> n \<le> 222 \<and> n \<noteq> 215) then char_of (n + 32) else c)"

definition lower :: "string \<Rightarrow> string" where
  "lower s = map lower_char s"

text \<open>
  \<^verbatim>\<open>int(s)\<close> for a string: surrounding whitespace is dropped, one sign is allowed, then
  decimal digits, where single underscores may stand between digits. Anything else raises
  \<^verbatim>\<open>ValueError\<close>, which is \<open>None\<close> here.
\<close>

definition is_digit :: "char \<Rightarrow> bool" where
  "is_digit c \<longleftrightarrow> (let n = (of_char c :: nat) in 48 \<le> n \<and> n \<le> 57)"

definition digit_val :: "char \<Rightarrow> int" where
  "digit_val c = int (of_char c) - 48"

fun py_digits :: "bool \<Rightarrow> int \<Rightarrow> string \<Rightarrow> int option" where
  "py_digits after_digit acc [] = (if after_digit then Some acc else None)"
| "py_digits after_digit acc (c # cs) =
     (if is_digit c then py_digits True (10 * acc + digit_val c) cs
      else if c = CHR ''_'' \<and> after_digit then py_digits False acc cs
      else None)"

definition py_int :: "string \<Rightarrow> int option" where
  "py_int s =
     (case strip s of
        [] \<Rightarrow> None
      | c # cs \<Rightarrow>
          if c = CHR ''-'' then map_option uminus (py_digits False 0 cs)
          else if c = CHR ''+'' then py_digits False 0 cs
          else py_digits False 0 (c # cs))"

text \<open>\<^verbatim>\<open>int(x)\<close> for a number: rounding towards zero.\<close>

definition py_trunc :: "rat \<Rightarrow> int" where
  "py_trunc x = (if 0 \<le> x then \<lfloor>x\<rfloor> else \<lceil>x\<rceil>)"

text \<open>
  The rounding operations of the source, each a parameter: the product of two
  \<^verbatim>\<open>Decimal\<close>s in the default context, \<^verbatim>\<open>float(d)\<close> of a \<^verbatim>\<open>Decimal\<close>, the float
  product, quotient, sum and difference, and the seconds of \<^verbatim>\<open>timedelta(hours=h)\<close>.
  Every theorem below holds for all of them.
\<close>

record Arith =
  dec_mul :: "rat \<Rightarrow> rat \<Rightarrow> rat"
  float_of_dec :: "rat \<Rightarrow> rat"
  fl_mul :: "rat \<Rightarrow> rat \<Rightarrow> rat"
  fl_div :: "rat \<Rightarrow> rat \<Rightarrow> rat"
  fl_add :: "rat \<Rightarrow> rat \<Rightarrow> rat"
  fl_sub :: "rat \<Rightarrow> rat \<Rightarrow> rat"
  timedelta_hours :: "rat \<Rightarrow> rat"

text \<open>
  One call of \<^verbatim>\<open>verify_payment\<close> reads \<^verbatim>\<open>time.time()\<close> up to three times: for the
  timestamp checks, in \<^verbatim>\<open>_is_nonce_used\<close>, and in \<^verbatim>\<open>_cleanup_old_nonces\<close>. The
  three readings are floats (seconds), given to the call as its clock.
\<close>

record Clock =
  at_verify :: rat
  at_check :: rat
  at_cleanup :: rat

section \<open>The payment verifier (\<^verbatim>\<open>payment_verifier_solana.py\<close>)\<close>

record PaymentDetailsSolana =
  payer :: string
  amount_units :: int
  asset :: string
  pay_to :: string
  timestamp :: int
  nonce :: string
  signature :: string
  is_valid :: bool

text \<open>
  The state of a \<^verbatim>\<open>PaymentVerifierSolana\<close> object. \<^verbatim>\<open>nonce_cache\<close> maps the key
  \<^verbatim>\<open>f"{payer}:{nonce}"\<close> to the timestamp of the accepted payment. The attribute
  \<^verbatim>\<open>cache_cleanup_interval\<close> is set to 3600 by the constructor and never assigned again.
  \<^verbatim>\<open>last_cleanup\<close> is the float \<^verbatim>\<open>time.time()\<close> of the constructor and later the
  integer time of the last cleanup.
\<close>

record PaymentVerifierSolana =
  backend_pubkey :: string
  usdc_mint :: string
  nonce_cache :: "(string, int) dict"
  last_cleanup :: rat

definition cache_cleanup_interval :: rat where
  "cache_cleanup_interval = 3600"

definition PaymentVerifierSolana_init :: "rat \<Rightarrow> string \<Rightarrow> string \<Rightarrow> PaymentVerifierSolana" where
  "PaymentVerifierSolana_init now backend usdc =
     \<lparr>backend_pubkey = backend, usdc_mint = usdc, nonce_cache = [], last_cleanup = now\<rparr>"

text \<open>
  \<^verbatim>\<open>_verify_signature\<close> serialises the six fields to sorted-key JSON, decodes signature
  and payer from base58 and checks the ed25519 signature with PyNaCl; every failure is
  \<^verbatim>\<open>False\<close>. The libraries are not part of the repository, so the check is a
  parameter: a predicate on the seven arguments.
\<close>

type_synonym sigcheck = "string \<Rightarrow> int \<Rightarrow> string \<Rightarrow> string \<Rightarrow> int \<Rightarrow> string \<Rightarrow> string \<Rightarrow> bool"

definition verify_signature ::
  "sigcheck \<Rightarrow> string \<Rightarrow> int \<Rightarrow> string \<Rightarrow> string \<Rightarrow> int \<Rightarrow> string \<Rightarrow> string \<Rightarrow> bool" where
  "verify_signature ed25519 payer' amount asset' pay_to' timestamp' nonce' signature' =
     ed25519 payer' amount asset' pay_to' timestamp' nonce' signature'"

text \<open>\<^verbatim>\<open>_parse_payment_header\<close>: \<^verbatim>\<open>key=value,key=value\<close>; items without \<open>=\<close> are skipped.\<close>

definition parse_item :: "string \<Rightarrow> (string, string) dict \<Rightarrow> (string, string) dict" where
  "parse_item item parts =
     (if CHR ''='' \<in> set item
      then (case split1 CHR ''='' item of (key, val) \<Rightarrow> AList.update (strip key) (strip val) parts)
      else parts)"

definition parse_payment_header :: "string \<Rightarrow> (string, string) dict" where
  "parse_payment_header payment_header = fold parse_item (str_split CHR '','' payment_header) []"

definition nonce_key :: "string \<Rightarrow> string \<Rightarrow> string" where
  "nonce_key payer' nonce' = payer' @ '':'' @ nonce'"

text \<open>\<^verbatim>\<open>_cleanup_old_nonces\<close>: drop the entries older than one hour.\<close>

definition cleanup_old_nonces :: "Clock \<Rightarrow> PaymentVerifierSolana \<Rightarrow> PaymentVerifierSolana" where
  "cleanup_old_nonces clk v =
     (let current_time = py_trunc (at_cleanup clk);
          cutoff_time = current_time - 3600
      in v\<lparr>nonce_cache := filter (\<lambda>(key, ts). \<not> ts < cutoff_time) (nonce_cache v),
           last_cleanup := of_int current_time\<rparr>)"

text \<open>
  \<^verbatim>\<open>_is_nonce_used\<close>: the lookup, after the periodic cleanup when
  \<^verbatim>\<open>time.time() - self.last_cleanup > self.cache_cleanup_interval\<close>, a float difference.
\<close>

definition is_nonce_used ::
  "Arith \<Rightarrow> Clock \<Rightarrow> PaymentVerifierSolana \<Rightarrow> string \<Rightarrow> string
     \<Rightarrow> bool \<times> PaymentVerifierSolana" where
  "is_nonce_used ar clk v payer' nonce' =
     (let v1 = (if fl_sub ar (at_check clk) (last_cleanup v) > cache_cleanup_interval
                then cleanup_old_nonces clk v else v)
      in (map_of (nonce_cache v1) (nonce_key payer' nonce') \<noteq> None, v1))"

definition mark_nonce_used ::
  "PaymentVerifierSolana \<Rightarrow> string \<Rightarrow> string \<Rightarrow> int \<Rightarrow> PaymentVerifierSolana" where
  "mark_nonce_used v payer' nonce' timestamp' =
     v\<lparr>nonce_cache := AList.update (nonce_key payer' nonce') timestamp' (nonce_cache v)\<rparr>"

text \<open>The result of the early return on an empty header and of the \<^verbatim>\<open>except\<close> branch.\<close>

definition blank_details :: PaymentDetailsSolana where
  "blank_details =
     \<lparr>payer = [], amount_units = 0, asset = [], pay_to = [], timestamp = 0, nonce = [],
      signature = [], is_valid = False\<rparr>"

text \<open>\<^verbatim>\<open>int(payment_data.get(key, 0))\<close>: \<open>None\<close> when \<^verbatim>\<open>int\<close> raises.\<close>

definition int_field :: "(string, string) dict \<Rightarrow> string \<Rightarrow> int option" where
  "int_field payment_data key = (case map_of payment_data key of None \<Rightarrow> Some 0 | Some s \<Rightarrow> py_int s)"

text \<open>\<^verbatim>\<open>payment_data.get(key, default)\<close>\<close>

definition get_default :: "(string, 'v) dict \<Rightarrow> string \<Rightarrow> 'v \<Rightarrow> 'v" where
  "get_default d key dflt = (case map_of d key of None \<Rightarrow> dflt | Some x \<Rightarrow> x)"

text \<open>
  \<^verbatim>\<open>PaymentVerifierSolana.verify_payment\<close>. The checks stand in the source's order; a
  \<^verbatim>\<open>ValueError\<close> of \<^verbatim>\<open>int\<close> is caught by the outer \<^verbatim>\<open>except\<close>, which returns the
  blank details. The verifier is returned with the details, since
  \<^verbatim>\<open>_is_nonce_used\<close> and \<^verbatim>\<open>_mark_nonce_used\<close> write to it.
\<close>

definition verify_payment ::
  "sigcheck \<Rightarrow> Arith \<Rightarrow> Clock \<Rightarrow> PaymentVerifierSolana \<Rightarrow> string \<Rightarrow> string option \<Rightarrow> int \<Rightarrow> int
     \<Rightarrow> PaymentDetailsSolana \<times> PaymentVerifierSolana" where
  "verify_payment ed25519 ar clk v payment_header payer_address required_amount max_age_seconds =
     (let payment_data = parse_payment_header payment_header in
      if payment_data = [] then (blank_details, v)
      else
        let payer' = get_default payment_data ''payer'' (or_empty payer_address) in
        case int_field payment_data ''amount'' of
          None \<Rightarrow> (blank_details, v)
        | Some amount \<Rightarrow>
            let asset' = get_default payment_data ''asset'' (usdc_mint v);
                pay_to' = get_default payment_data ''payTo'' (backend_pubkey v) in
            (case int_field payment_data ''timestamp'' of
               None \<Rightarrow> (blank_details, v)
             | Some timestamp' \<Rightarrow>
                 let nonce' = get_default payment_data ''nonce'' [];
                     signature' = get_default payment_data ''signature'' [];
                     rejected = \<lparr>payer = payer', amount_units = amount, asset = asset',
                                 pay_to = pay_to', timestamp = timestamp', nonce = nonce',
                                 signature = signature', is_valid = False\<rparr>
                 in
                 if payer' = [] \<or> amount = 0 \<or> asset' = [] \<or> pay_to' = [] \<or> timestamp' = 0
                    \<or> nonce' = [] \<or> signature' = [] then (rejected, v)
                 else if amount \<noteq> required_amount then (rejected, v)
                 else if pay_to' \<noteq> backend_pubkey v then (rejected, v)
                 else if asset' \<noteq> usdc_mint v then (rejected, v)
                 else if timestamp' > py_trunc (at_verify clk) + 60 then (rejected, v)
                 else if py_trunc (at_verify clk) - timestamp' > max_age_seconds then (rejected, v)
                 else
                   (case is_nonce_used ar clk v payer' nonce' of
                      (used, v1) \<Rightarrow>
                        if used then (rejected, v1)
                        else
                          let valid = verify_signature ed25519 payer' amount asset' pay_to'
                                        timestamp' nonce' signature'
                          in (rejected\<lparr>is_valid := valid\<rparr>,
                              if valid then mark_nonce_used v1 payer' nonce' timestamp' else v1))))"

text \<open>
  \<^verbatim>\<open>SimplePaymentVerifierSolana.verify_payment\<close>, the testing verifier: it lower-cases the
  keys, compares the amount and checks nothing else. It has no state.
\<close>

definition parse_item_lower :: "string \<Rightarrow> (string, string) dict \<Rightarrow> (string, string) dict" where
  "parse_item_lower item parts =
     (if CHR ''='' \<in> set item
      then (case split1 CHR ''='' item of
              (key, val) \<Rightarrow> AList.update (lower (strip key)) (strip val) parts)
      else parts)"

definition simple_verify_payment ::
  "Clock \<Rightarrow> string \<Rightarrow> string \<Rightarrow> string \<Rightarrow> string option \<Rightarrow> int \<Rightarrow> PaymentDetailsSolana" where
  "simple_verify_payment clk backend usdc payment_header payer_address required_amount =
     (let parts = fold parse_item_lower (str_split CHR '','' payment_header) [];
          now = py_trunc (at_verify clk);
          payer_or_empty = or_empty payer_address;
          failed = (\<lambda>amount. \<lparr>payer = payer_or_empty, amount_units = amount, asset = usdc,
                      pay_to = backend, timestamp = now, nonce = [],
                      signature = get_default parts ''signature'' [], is_valid = False\<rparr>)
      in case map_of parts ''amount'' of
           None \<Rightarrow> failed 0
         | Some a \<Rightarrow>
             if a = [] then failed 0
             else (case py_int a of
                     None \<Rightarrow> blank_details
                   | Some amount \<Rightarrow>
                       if amount \<noteq> required_amount then failed amount
                       else \<lparr>payer = (if payer_or_empty = [] then ''11111111111111111111111111111111''
                                      else payer_or_empty),
                             amount_units = amount, asset = usdc, pay_to = backend, timestamp = now,
                             nonce = get_default parts ''token'' [],
                             signature = get_default parts ''signature'' [], is_valid = True\<rparr>))"

text \<open>
  \<^verbatim>\<open>server.py\<close> builds one of the two verifiers at start-up
  (\<^verbatim>\<open>PAYMENT_VERIFICATION_MODE\<close>) and calls its \<^verbatim>\<open>verify_payment\<close>.
\<close>

datatype payment_verifier = Full PaymentVerifierSolana | Simple string string

fun pv_verify_payment ::
  "sigcheck \<Rightarrow> Arith \<Rightarrow> Clock \<Rightarrow> payment_verifier \<Rightarrow> string \<Rightarrow> string option \<Rightarrow> int \<Rightarrow> int
     \<Rightarrow> PaymentDetailsSolana \<times> payment_verifier" where
  "pv_verify_payment ed25519 ar clk (Full v) payment_header payer_address required_amount max_age =
     (case verify_payment ed25519 ar clk v payment_header payer_address required_amount max_age of
        (d, v') \<Rightarrow> (d, Full v'))"
| "pv_verify_payment ed25519 ar clk (Simple backend usdc) payment_header payer_address required_amount
     max_age =
     (simple_verify_payment clk backend usdc payment_header payer_address required_amount,
      Simple backend usdc)"

section \<open>The server (\<^verbatim>\<open>server.py\<close>)\<close>

text \<open>
  A value of a JSON request body. \<^verbatim>\<open>json.loads\<close> also reads \<^verbatim>\<open>NaN\<close>,
  \<^verbatim>\<open>Infinity\<close> and \<^verbatim>\<open>-Infinity\<close> (\<open>JInfinity True\<close> is the positive one). A key
  that is absent reads as \<^verbatim>\<open>None\<close> with \<^verbatim>\<open>data.get\<close>, like \<^verbatim>\<open>null\<close>.
\<close>

datatype json =
    JNull
  | JBool bool
  | JNum rat
  | JNaN
  | JInfinity bool
  | JStr string
  | JArr "json list"
  | JObj "(string \<times> json) list"

text \<open>Python's truth value of a JSON value, and \<^verbatim>\<open>not x\<close>.\<close>

fun truthy :: "json \<Rightarrow> bool" where
  "truthy JNull = False"
| "truthy (JBool b) = b"
| "truthy (JNum x) = (x \<noteq> 0)"
| "truthy JNaN = True"
| "truthy (JInfinity positive) = True"
| "truthy (JStr t) = (t \<noteq> [])"
| "truthy (JArr xs) = (xs \<noteq> [])"
| "truthy (JObj kvs) = (kvs \<noteq> [])"

definition json_falsy :: "json \<Rightarrow> bool" where
  "json_falsy x \<longleftrightarrow> \<not> truthy x"

text \<open>
  The value as a Python number, for the comparisons with a number: \<open>None\<close> for the
  values whose comparison raises \<^verbatim>\<open>TypeError\<close> (\<^verbatim>\<open>None\<close>, strings, lists,
  dictionaries). \<^verbatim>\<open>True\<close> and \<^verbatim>\<open>False\<close> are the integers 1 and 0. Every comparison
  with \<^verbatim>\<open>NaN\<close> is false.
\<close>

datatype number = Fin rat | NaN | Inf bool

fun as_number :: "json \<Rightarrow> number option" where
  "as_number (JBool b) = Some (Fin (if b then 1 else 0))"
| "as_number (JNum x) = Some (Fin x)"
| "as_number JNaN = Some NaN"
| "as_number (JInfinity positive) = Some (Inf positive)"
| "as_number JNull = None"
| "as_number (JStr t) = None"
| "as_number (JArr xs) = None"
| "as_number (JObj kvs) = None"

fun num_lt :: "number \<Rightarrow> rat \<Rightarrow> bool" where
  "num_lt (Fin x) r = (x < r)"
| "num_lt NaN r = False"
| "num_lt (Inf positive) r = (\<not> positive)"

fun num_le :: "number \<Rightarrow> rat \<Rightarrow> bool" where
  "num_le (Fin x) r = (x \<le> r)"
| "num_le NaN r = False"
| "num_le (Inf positive) r = (\<not> positive)"

fun num_gt :: "number \<Rightarrow> rat \<Rightarrow> bool" where
  "num_gt (Fin x) r = (x > r)"
| "num_gt NaN r = False"
| "num_gt (Inf positive) r = positive"

text \<open>
  USDC amounts are JSON numbers and Python floats. A float is represented by the rational
  that its \<^verbatim>\<open>str\<close> denotes (the shortest decimal that reads back as the float), so
  that \<^verbatim>\<open>Decimal(str(x))\<close> is \<open>x\<close>; floats compare with each other, and below
  \<open>2\<^sup>5\<^sup>3\<close> with integers, as these rationals do. Datetimes are unix seconds (with
  their microseconds, so rationals). \<^verbatim>\<open>to_micro\<close> multiplies the decimal value of the
  amount's \<^verbatim>\<open>str\<close> by \<open>10\<^sup>6\<close> and rounds towards zero (\<^verbatim>\<open>ROUND_DOWN\<close>); it raises
  \<^verbatim>\<open>ValueError\<close> for \<^verbatim>\<open>NaN\<close>, which the callers below model where it can happen.
\<close>

definition to_micro :: "rat \<Rightarrow> int" where
  "to_micro amount_usdc = py_trunc (amount_usdc * 1000000)"

record Config =
  PREMIUM_PERCENTAGE :: rat
  MAX_COVERAGE :: rat
  POLICY_DURATION :: int
  PAYMENT_MAX_AGE_SECONDS :: int

text \<open>
  A policy of \<^verbatim>\<open>policies.json\<close> and a claim of \<^verbatim>\<open>claims.json\<close>. A key that some
  records lack is an \<open>option\<close> field: reading it with \<^verbatim>\<open>d[key]\<close> raises
  \<^verbatim>\<open>KeyError\<close> when it is \<open>None\<close>. The hashes, the stored headers and the proof
  generation time, which nothing below reads, are left out.
\<close>

record Policy =
  p_policy_id :: string
  p_agent_address :: string
  p_merchant_url :: string
  p_coverage_amount :: rat
  p_coverage_amount_units :: "int option"
  p_premium :: rat
  p_premium_units :: int
  p_status :: string
  p_created_at :: rat
  p_expires_at :: rat
  p_renewed_at :: "rat option"
  p_renewal_count :: "int option"
  p_total_renewal_fees :: "rat option"

record HttpResponse =
  hr_status :: "int option"
  hr_body :: "string option"
  hr_headers :: "(string, string) dict option"

record Claim =
  c_claim_id :: string
  c_policy_id :: string
  c_status :: string
  c_idempotency_key :: "string option"
  c_http_response :: "HttpResponse option"
  c_http_status :: "int option"
  c_agent_address :: "string option"
  c_coverage_amount :: "rat option"
  c_coverage_amount_units :: "int option"
  c_proof :: "string option"
  c_public_inputs :: "int list option"
  c_payout_amount :: "rat option"
  c_payout_amount_units :: "int option"
  c_attestation_tx_hash :: "string option"
  c_refund_tx_hash :: "string option"
  c_recipient_address :: "string option"
  c_error :: "string option"
  c_created_at :: rat
  c_paid_at :: "rat option"
  c_failed_at :: "rat option"

text \<open>
  The calls that leave the process: the zkEngine (\<^verbatim>\<open>generate_proof\<close>,
  \<^verbatim>\<open>verify_proof\<close>) and the blockchain client (\<^verbatim>\<open>store_proof_on_chain\<close>,
  \<^verbatim>\<open>issue_refund\<close>). The state keeps the list of the calls made so far, in order, each
  blockchain call with whether it returned a transaction. One run of a handler or of the
  background worker makes each call at most once, so what the services answer in a run
  is one value per call: \<open>Inl\<close> the message of the exception raised, \<open>Inr\<close> the result.
\<close>

datatype ext_call =
    GenerateProof
  | VerifyProof
  | StoreProofOnChain string bool
  | IssueRefund string int bool

record Outcomes =
  generate_proof :: "string + (string \<times> int list \<times> int)"
  verify_proof :: "string + bool"
  store_proof_on_chain :: "string + string"
  issue_refund :: "string + string"

text \<open>
  The state of the service: the two JSON files, the payment verifier, the external calls
  made, and the claim ids for which a background thread was started. Each run of a
  handler and each run of the worker is one step on this state.
\<close>

record Server =
  policies :: "(string, Policy) dict"
  claims :: "(string, Claim) dict"
  payment_verifier :: payment_verifier
  calls :: "ext_call list"
  threads :: "string list"

text \<open>\<^verbatim>\<open>not x\<close> for an optional string (absent or empty).\<close>

definition falsy :: "string option \<Rightarrow> bool" where
  "falsy x \<longleftrightarrow> (case x of None \<Rightarrow> True | Some s \<Rightarrow> s = [])"

subsection \<open>\<^verbatim>\<open>POST /insure\<close>\<close>

record InsureRequest =
  ir_merchant_url :: json
  ir_coverage_amount :: json
  ir_payment_header :: "string option"
  ir_payer_header :: "string option"

text \<open>
  The responses: an error with its HTTP status, the two 402 answers with the required
  amount (no payment header; verification failed), 201 with the policy, and the 500 that
  Flask makes of an exception no handler catches.
\<close>

datatype InsureResponse =
    InsureError nat string
  | InsurePaymentRequired int
  | InsurePaymentFailed int
  | InsureCreated Policy
  | InsureUnhandled string

fun insure_http_status :: "InsureResponse \<Rightarrow> nat" where
  "insure_http_status (InsureError code msg) = code"
| "insure_http_status (InsurePaymentRequired units) = 402"
| "insure_http_status (InsurePaymentFailed units) = 402"
| "insure_http_status (InsureCreated policy) = 201"
| "insure_http_status (InsureUnhandled exn) = 500"

text \<open>
  The premium:
  \<^verbatim>\<open>float(Decimal(str(coverage_amount)) * Decimal(str(PREMIUM_PERCENTAGE)))\<close>.
\<close>

definition premium_of :: "Arith \<Rightarrow> Config \<Rightarrow> rat \<Rightarrow> rat" where
  "premium_of ar config coverage_amount =
     float_of_dec ar (dec_mul ar coverage_amount (PREMIUM_PERCENTAGE config))"

text \<open>
  \<^verbatim>\<open>insure\<close>. \<open>new_id\<close> is the \<^verbatim>\<open>uuid4\<close> drawn for the policy, \<open>now\<close> the
  \<^verbatim>\<open>datetime.now\<close> of the handler and \<open>db_ok\<close> what \<^verbatim>\<open>database.create_policy\<close>
  returns (\<open>False\<close> when the write fails). The comparisons of \<^verbatim>\<open>coverage_amount\<close>
  raise \<^verbatim>\<open>TypeError\<close> for a string, list or dictionary; \<^verbatim>\<open>Decimal(str(True))\<close>
  raises \<^verbatim>\<open>InvalidOperation\<close>; and \<^verbatim>\<open>to_micro\<close> raises \<^verbatim>\<open>ValueError\<close> for
  \<^verbatim>\<open>NaN\<close>, which passes the three tests. A \<^verbatim>\<open>merchant_url\<close> that is no string
  raises \<^verbatim>\<open>AttributeError\<close> at \<^verbatim>\<open>merchant_url.encode()\<close>, after the payment was
  verified. The two \<^verbatim>\<open>datetime.now\<close> readings of the policy are the one \<open>now\<close>.
\<close>

definition insure ::
  "sigcheck \<Rightarrow> Arith \<Rightarrow> Clock \<Rightarrow> Config \<Rightarrow> rat \<Rightarrow> string \<Rightarrow> bool \<Rightarrow> InsureRequest \<Rightarrow> Server
     \<Rightarrow> InsureResponse \<times> Server" where
  "insure ed25519 ar clk config now new_id db_ok req s =
     (if json_falsy (ir_merchant_url req) \<or> json_falsy (ir_coverage_amount req)
      then (InsureError 400 ''Missing merchant_url or coverage_amount'', s)
      else
        (case as_number (ir_coverage_amount req) of
           None \<Rightarrow> (InsureUnhandled ''TypeError'', s)
         | Some n \<Rightarrow>
             if num_le n 0 then (InsureError 400 ''Coverage amount must be positive'', s)
             else if num_gt n (MAX_COVERAGE config)
             then (InsureError 400 ''Coverage exceeds maximum'', s)
             else
               (case ir_coverage_amount req of
                  JNum coverage_amount \<Rightarrow>
                    let premium = premium_of ar config coverage_amount;
                        premium_units = to_micro premium
                    in if falsy (ir_payment_header req) then (InsurePaymentRequired premium_units, s)
                       else
                         (case pv_verify_payment ed25519 ar clk (payment_verifier s)
                                 (or_empty (ir_payment_header req)) (ir_payer_header req)
                                 premium_units (PAYMENT_MAX_AGE_SECONDS config) of
                            (payment_details, pv') \<Rightarrow>
                              let s1 = s\<lparr>payment_verifier := pv'\<rparr> in
                              if \<not> is_valid payment_details
                              then (InsurePaymentFailed premium_units, s1)
                              else
                                (case ir_merchant_url req of
                                   JStr merchant_url \<Rightarrow>
                                let policy =
                                      \<lparr>p_policy_id = new_id,
                                       p_agent_address = payer payment_details,
                                       p_merchant_url = merchant_url,
                                       p_coverage_amount = coverage_amount,
                                       p_coverage_amount_units = Some (to_micro coverage_amount),
                                       p_premium = premium,
                                       p_premium_units = premium_units,
                                       p_status = ''active'',
                                       p_created_at = now,
                                       p_expires_at = now + of_int (POLICY_DURATION config) * 3600,
                                       p_renewed_at = None,
                                       p_renewal_count = None,
                                       p_total_renewal_fees = None\<rparr>
                                in if \<not> db_ok then (InsureError 500 ''Failed to create policy'', s1)
                                   else (InsureCreated policy,
                                         s1\<lparr>policies := AList.update new_id policy (policies s1)\<rparr>)
                                 | other \<Rightarrow> (InsureUnhandled ''AttributeError'', s1)))
                | JBool b \<Rightarrow> (InsureUnhandled ''InvalidOperation'', s)
                | other \<Rightarrow> (InsureUnhandled ''ValueError'', s))))"

subsection \<open>\<^verbatim>\<open>POST /renew\<close>\<close>

record RenewRequest =
  rr_policy_id :: json
  rr_extend_hours :: "json option"
  rr_payment_header :: "string option"
  rr_payer_header :: "string option"

text \<open>
  The responses: an error with its HTTP status (400, 403, 404), the two 402 answers with
  the renewal fee in units, 200 with the renewed policy and its old expiry, and the 500
  of an exception no handler catches.
\<close>

datatype RenewResponse =
    RenewError nat string
  | RenewPaymentRequired int
  | RenewPaymentFailed int
  | Renewed Policy rat
  | RenewUnhandled string

text \<open>
  The renewal fee, pro-rated by the day, a product of floats:
  \<^verbatim>\<open>policy['coverage_amount'] * PREMIUM_PERCENTAGE * (extend_hours / 24)\<close>.
\<close>

definition renewal_fee_of :: "Arith \<Rightarrow> Config \<Rightarrow> Policy \<Rightarrow> rat \<Rightarrow> rat" where
  "renewal_fee_of ar config policy extend_hours =
     fl_mul ar (fl_mul ar (p_coverage_amount policy) (PREMIUM_PERCENTAGE config))
       (fl_div ar extend_hours 24)"

text \<open>\<^verbatim>\<open>data.get('extend_hours', 24)\<close>: \<open>None\<close> is the absent key.\<close>

definition extend_hours_of :: "RenewRequest \<Rightarrow> json" where
  "extend_hours_of req = (case rr_extend_hours req of None \<Rightarrow> JNum 24 | Some h \<Rightarrow> h)"

text \<open>
  \<^verbatim>\<open>policies.get(policy_id)\<close> for the JSON value of the request: a list or a
  dictionary is unhashable (\<^verbatim>\<open>TypeError\<close>), and a value that is no string is the key
  of no policy.
\<close>

fun policies_get :: "(string, Policy) dict \<Rightarrow> json \<Rightarrow> string + (string \<times> Policy) option" where
  "policies_get ps (JStr policy_id) = Inr (map_option (Pair policy_id) (map_of ps policy_id))"
| "policies_get ps (JArr xs) = Inl ''TypeError''"
| "policies_get ps (JObj kvs) = Inl ''TypeError''"
| "policies_get ps JNull = Inr None"
| "policies_get ps (JBool b) = Inr None"
| "policies_get ps (JNum x) = Inr None"
| "policies_get ps JNaN = Inr None"
| "policies_get ps (JInfinity positive) = Inr None"

text \<open>
  \<^verbatim>\<open>renew_policy\<close>. The range check of \<^verbatim>\<open>extend_hours\<close> raises \<^verbatim>\<open>TypeError\<close> for
  a value that is no number; \<^verbatim>\<open>NaN\<close> passes it and \<^verbatim>\<open>to_micro\<close> raises on the fee.
  The verifier runs before the owner check, so a payment by another payer is verified
  (and its nonce used) and then refused with 403.
\<close>

definition renew_policy ::
  "sigcheck \<Rightarrow> Arith \<Rightarrow> Clock \<Rightarrow> Config \<Rightarrow> rat \<Rightarrow> RenewRequest \<Rightarrow> Server
     \<Rightarrow> RenewResponse \<times> Server" where
  "renew_policy ed25519 ar clk config now req s =
     (if json_falsy (rr_policy_id req) then (RenewError 400 ''Missing policy_id'', s)
      else
        case as_number (extend_hours_of req) of
          None \<Rightarrow> (RenewUnhandled ''TypeError'', s)
        | Some n \<Rightarrow>
        if num_lt n 1 \<or> num_gt n 168
        then (RenewError 400 ''extend_hours must be between 1 and 168 (7 days)'', s)
        else
          (case policies_get (policies s) (rr_policy_id req) of
             Inl exn \<Rightarrow> (RenewUnhandled exn, s)
           | Inr None \<Rightarrow> (RenewError 404 ''Policy not found'', s)
           | Inr (Some (policy_id, policy)) \<Rightarrow>
               if p_status policy \<noteq> ''active''
               then (RenewError 400 ''Can only renew active policies'', s)
               else if p_expires_at policy < now
               then (RenewError 400 ''Cannot renew expired policy. Please purchase a new policy.'', s)
               else
                 (case n of
                    Fin extend_hours \<Rightarrow>
                 let renewal_fee = renewal_fee_of ar config policy extend_hours;
                     renewal_fee_units = to_micro renewal_fee
                 in
                 if falsy (rr_payment_header req) \<or> falsy (rr_payer_header req)
                 then (RenewPaymentRequired renewal_fee_units, s)
                 else
                   (case pv_verify_payment ed25519 ar clk (payment_verifier s)
                           (or_empty (rr_payment_header req)) (rr_payer_header req)
                           renewal_fee_units (PAYMENT_MAX_AGE_SECONDS config) of
                      (payment_details, pv') \<Rightarrow>
                        let s1 = s\<lparr>payment_verifier := pv'\<rparr> in
                        if \<not> is_valid payment_details then (RenewPaymentFailed renewal_fee_units, s1)
                        else if lower (payer payment_details) \<noteq> lower (p_agent_address policy)
                        then (RenewError 403 ''Only policy owner can renew policy'', s1)
                        else
                          let old_expires_at = p_expires_at policy;
                              new_expires_at = old_expires_at + timedelta_hours ar extend_hours;
                              policy' = policy
                                \<lparr>p_expires_at := new_expires_at,
                                 p_renewed_at := Some now,
                                 p_renewal_count :=
                                   Some ((case p_renewal_count policy of None \<Rightarrow> 0 | Some k \<Rightarrow> k) + 1),
                                 p_total_renewal_fees :=
                                   Some (fl_add ar
                                          (case p_total_renewal_fees policy of None \<Rightarrow> 0 | Some f \<Rightarrow> f)
                                          renewal_fee)\<rparr>
                          in (Renewed policy' old_expires_at,
                              s1\<lparr>policies := AList.update policy_id policy' (policies s1)\<rparr>))
                  | other \<Rightarrow> (RenewUnhandled ''ValueError'', s))))"

subsection \<open>\<^verbatim>\<open>POST /claim\<close> and the background worker\<close>

record ClaimRequest =
  cr_policy_id :: "string option"
  cr_http_response :: "HttpResponse option"
  cr_idempotency_key :: "string option"
  cr_async :: "string option"

text \<open>
  The responses of \<^verbatim>\<open>claim\<close>: an error with its HTTP status; the idempotent response
  (200) with claim id, policy id, proof, public inputs, payout amount, refund transaction
  and status; 202 for a claim handed to the worker (claim id, policy id; its status is
  \<^verbatim>\<open>processing\<close>); the 500 of a failed refund with the error and the attestation
  transaction; 201 with the paid claim; and the 500 that Flask makes of an exception no
  handler catches.
\<close>

datatype ClaimResponse =
    ClaimError nat string
  | ClaimReplayed string string string "int list" rat string string
  | ClaimAccepted string string
  | ClaimRefundFailed string string
  | ClaimPaid Claim
  | ClaimUnhandled string

fun claim_http_status :: "ClaimResponse \<Rightarrow> nat" where
  "claim_http_status (ClaimError code msg) = code"
| "claim_http_status (ClaimReplayed cid pid prf inputs payout tx st) = 200"
| "claim_http_status (ClaimAccepted cid pid) = 202"
| "claim_http_status (ClaimRefundFailed msg attestation) = 500"
| "claim_http_status (ClaimPaid c) = 201"
| "claim_http_status (ClaimUnhandled exn) = 500"

text \<open>\<^verbatim>\<open>not http_response\<close>: absent, or a dictionary with no key.\<close>

definition empty_response :: "HttpResponse option \<Rightarrow> bool" where
  "empty_response r \<longleftrightarrow>
     (case r of None \<Rightarrow> True
      | Some h \<Rightarrow> hr_status h = None \<and> hr_body h = None \<and> hr_headers h = None)"

text \<open>
  The idempotency check: the first claim of \<^verbatim>\<open>claims.json\<close> stored under the key, and
  the response built from it with \<^verbatim>\<open>existing_claim[...]\<close>, which raises
  \<^verbatim>\<open>KeyError\<close> at the first key the record lacks.
\<close>

definition find_idempotent :: "string \<Rightarrow> (string, Claim) dict \<Rightarrow> Claim option" where
  "find_idempotent key cs =
     map_option snd (find (\<lambda>(claim_id, existing_claim). c_idempotency_key existing_claim = Some key) cs)"

definition idempotent_response :: "Claim \<Rightarrow> ClaimResponse" where
  "idempotent_response existing_claim =
     (case c_proof existing_claim of
        None \<Rightarrow> ClaimUnhandled ''KeyError: proof''
      | Some prf \<Rightarrow>
          (case c_public_inputs existing_claim of
             None \<Rightarrow> ClaimUnhandled ''KeyError: public_inputs''
           | Some inputs \<Rightarrow>
               (case c_payout_amount existing_claim of
                  None \<Rightarrow> ClaimUnhandled ''KeyError: payout_amount''
                | Some payout \<Rightarrow>
                    (case c_refund_tx_hash existing_claim of
                       None \<Rightarrow> ClaimUnhandled ''KeyError: refund_tx_hash''
                     | Some tx \<Rightarrow>
                         ClaimReplayed (c_claim_id existing_claim) (c_policy_id existing_claim)
                           prf inputs payout tx (c_status existing_claim)))))"

text \<open>\<^verbatim>\<open>policy.get("coverage_amount_units") or to_micro(policy.get("coverage_amount"))\<close>\<close>

definition coverage_units :: "Policy \<Rightarrow> int" where
  "coverage_units policy =
     (case p_coverage_amount_units policy of
        None \<Rightarrow> to_micro (p_coverage_amount policy)
      | Some u \<Rightarrow> if u = 0 then to_micro (p_coverage_amount policy) else u)"

definition call :: "ext_call \<Rightarrow> Server \<Rightarrow> Server" where
  "call c s = s\<lparr>calls := calls s @ [c]\<rparr>"

text \<open>
  The asynchronous branch of \<^verbatim>\<open>claim\<close>: store the claim as \<^verbatim>\<open>processing\<close>, start
  the thread, answer 202.
\<close>

definition claim_async ::
  "rat \<Rightarrow> string \<Rightarrow> string \<Rightarrow> Policy \<Rightarrow> HttpResponse \<Rightarrow> string option \<Rightarrow> Server
     \<Rightarrow> ClaimResponse \<times> Server" where
  "claim_async now claim_id policy_id policy http_response idempotency_key s =
     (case hr_body http_response of
        None \<Rightarrow> (ClaimUnhandled ''KeyError: body'', s)
      | Some body \<Rightarrow>
          (case hr_status http_response of
             None \<Rightarrow> (ClaimUnhandled ''KeyError: status'', s)
           | Some status \<Rightarrow>
               let claim_record =
                     \<lparr>c_claim_id = claim_id, c_policy_id = policy_id, c_status = ''processing'',
                      c_idempotency_key = idempotency_key,
                      c_http_response = Some http_response,
                      c_http_status = Some status,
                      c_agent_address = Some (p_agent_address policy),
                      c_coverage_amount = Some (p_coverage_amount policy),
                      c_coverage_amount_units = Some (coverage_units policy),
                      c_proof = None, c_public_inputs = None, c_payout_amount = None,
                      c_payout_amount_units = None, c_attestation_tx_hash = None,
                      c_refund_tx_hash = None, c_recipient_address = None, c_error = None,
                      c_created_at = now, c_paid_at = None, c_failed_at = None\<rparr>
               in (ClaimAccepted claim_id policy_id,
                   s\<lparr>claims := AList.update claim_id claim_record (claims s),
                     threads := threads s @ [claim_id]\<rparr>)))"

text \<open>
  The synchronous branch of \<^verbatim>\<open>claim\<close>: proof, proof check, attestation on chain, refund,
  and only then the claim record, written as \<^verbatim>\<open>paid\<close>, and the policy set to
  \<^verbatim>\<open>claimed\<close>.
\<close>

definition claim_sync ::
  "Outcomes \<Rightarrow> rat \<Rightarrow> string \<Rightarrow> string \<Rightarrow> Policy \<Rightarrow> HttpResponse \<Rightarrow> string option \<Rightarrow> Server
     \<Rightarrow> ClaimResponse \<times> Server" where
  "claim_sync ext now claim_id policy_id policy http_response idempotency_key s =
     (case hr_status http_response of
        None \<Rightarrow> (ClaimError 500 ''Proof generation failed: KeyError: status'', s)
      | Some status \<Rightarrow>
     (case hr_body http_response of
        None \<Rightarrow> (ClaimError 500 ''Proof generation failed: KeyError: body'', s)
      | Some body \<Rightarrow>
     (let s1 = call GenerateProof s in
      case generate_proof ext of
        Inl e \<Rightarrow> (ClaimError 500 (''Proof generation failed: '' @ e), s1)
      | Inr (proof_hex, public_inputs, gen_time_ms) \<Rightarrow>
     (let s2 = call VerifyProof s1 in
      case verify_proof ext of
        Inl e \<Rightarrow> (ClaimError 500 (''Proof verification failed: '' @ e), s2)
      | Inr proof_ok \<Rightarrow>
          if \<not> proof_ok then (ClaimError 500 ''Generated proof is invalid (internal error)'', s2)
          else if length public_inputs < 4 then (ClaimUnhandled ''IndexError'', s2)
          else if public_inputs ! 0 \<noteq> 1
          then (ClaimError 400 ''No API failure detected in HTTP response'', s2)
          else
            let payout_amount = p_coverage_amount policy;
                payout_amount_units = coverage_units policy
            in
            (case store_proof_on_chain ext of
               Inl e \<Rightarrow> (ClaimError 500 (''Failed to store proof on-chain: '' @ e),
                         call (StoreProofOnChain claim_id False) s2)
             | Inr attestation_tx_hash \<Rightarrow>
            (let s3 = call (StoreProofOnChain claim_id True) s2 in
             case issue_refund ext of
               Inl e \<Rightarrow> (ClaimRefundFailed (''Refund failed: '' @ e) attestation_tx_hash,
                         call (IssueRefund (p_agent_address policy) payout_amount_units False) s3)
             | Inr refund_tx_hash \<Rightarrow>
                 let s4 = call (IssueRefund (p_agent_address policy) payout_amount_units True) s3;
                     claim_record =
                       \<lparr>c_claim_id = claim_id, c_policy_id = policy_id, c_status = ''paid'',
                        c_idempotency_key = idempotency_key,
                        c_http_response = None,
                        c_http_status = Some status,
                        c_agent_address = None,
                        c_coverage_amount = None,
                        c_coverage_amount_units = None,
                        c_proof = Some proof_hex, c_public_inputs = Some public_inputs,
                        c_payout_amount = Some payout_amount,
                        c_payout_amount_units = Some payout_amount_units,
                        c_attestation_tx_hash = Some attestation_tx_hash,
                        c_refund_tx_hash = Some refund_tx_hash,
                        c_recipient_address = Some (p_agent_address policy), c_error = None,
                        c_created_at = now, c_paid_at = Some now, c_failed_at = None\<rparr>
                 in (ClaimPaid claim_record,
                     s4\<lparr>claims := AList.update claim_id claim_record (claims s4),
                        policies := AList.update policy_id (policy\<lparr>p_status := ''claimed''\<rparr>)
                                      (policies s4)\<rparr>)))))))"

text \<open>
  \<^verbatim>\<open>claim\<close>. \<open>new_id\<close> is the \<^verbatim>\<open>uuid4\<close> drawn for the claim. The query parameter
  \<^verbatim>\<open>async\<close> selects the branch.
\<close>

definition async_mode :: "string option \<Rightarrow> bool" where
  "async_mode a \<longleftrightarrow>
     (let v = lower (case a of None \<Rightarrow> ''false'' | Some x \<Rightarrow> x)
      in v = ''true'' \<or> v = ''1'' \<or> v = ''yes'')"

definition claim ::
  "Outcomes \<Rightarrow> rat \<Rightarrow> string \<Rightarrow> ClaimRequest \<Rightarrow> Server \<Rightarrow> ClaimResponse \<times> Server" where
  "claim ext now new_id req s =
     (if falsy (cr_policy_id req) \<or> empty_response (cr_http_response req)
      then (ClaimError 400 ''Missing policy_id or http_response'', s)
      else
        (case (if falsy (cr_idempotency_key req) then None
               else find_idempotent (or_empty (cr_idempotency_key req)) (claims s)) of
           Some existing_claim \<Rightarrow> (idempotent_response existing_claim, s)
         | None \<Rightarrow>
             (case map_of (policies s) (or_empty (cr_policy_id req)) of
                None \<Rightarrow> (ClaimError 404 ''Policy not found'', s)
              | Some policy \<Rightarrow>
                  if p_status policy \<noteq> ''active'' then (ClaimError 400 ''Policy is not active'', s)
                  else if p_expires_at policy < now then (ClaimError 400 ''Policy expired'', s)
                  else
                    (case cr_http_response req of
                       None \<Rightarrow> (ClaimError 400 ''Missing policy_id or http_response'', s)
                     | Some http_response \<Rightarrow>
                         if async_mode (cr_async req)
                         then claim_async now new_id (or_empty (cr_policy_id req)) policy
                                http_response (cr_idempotency_key req) s
                         else claim_sync ext now new_id (or_empty (cr_policy_id req)) policy
                                http_response (cr_idempotency_key req) s))))"

text \<open>
  \<^verbatim>\<open>process_claim_async\<close>, the worker a thread runs for one claim id. Its \<^verbatim>\<open>try\<close>
  block either returns (\<open>None\<close>) or raises (\<open>Some\<close> the message), with the state it
  has reached; the \<^verbatim>\<open>except\<close> block then marks the stored claim as failed. The
  worker reads the policy but not its status, and it never calls
  \<^verbatim>\<open>store_proof_on_chain\<close>.
\<close>

definition fail_claim :: "string \<Rightarrow> string \<Rightarrow> Claim \<Rightarrow> Server \<Rightarrow> Server" where
  "fail_claim claim_id msg c s =
     s\<lparr>claims := AList.update claim_id (c\<lparr>c_status := ''failed'', c_error := Some msg\<rparr>) (claims s)\<rparr>"

definition process_claim_async_try ::
  "Outcomes \<Rightarrow> rat \<Rightarrow> string \<Rightarrow> Server \<Rightarrow> string option \<times> Server" where
  "process_claim_async_try ext now claim_id s =
     (case map_of (claims s) claim_id of
        None \<Rightarrow> (None, s)
      | Some c \<Rightarrow>
     (case map_of (policies s) (c_policy_id c) of
        None \<Rightarrow> (None, fail_claim claim_id ''Policy not found'' c s)
      | Some policy \<Rightarrow>
     (let http_response =
            (case c_http_response c of
               None \<Rightarrow> \<lparr>hr_status = None, hr_body = None, hr_headers = None\<rparr>
             | Some h \<Rightarrow> h)
      in
      case hr_status http_response of
        None \<Rightarrow> (Some ''KeyError: status'', s)
      | Some status \<Rightarrow>
     (case hr_body http_response of
        None \<Rightarrow> (Some ''KeyError: body'', s)
      | Some body \<Rightarrow>
     (let s1 = call GenerateProof s in
      case generate_proof ext of
        Inl e \<Rightarrow> (Some e, s1)
      | Inr (proof_hex, public_inputs, gen_time_ms) \<Rightarrow>
     (let s2 = call VerifyProof s1 in
      case verify_proof ext of
        Inl e \<Rightarrow> (Some e, s2)
      | Inr proof_ok \<Rightarrow>
          if \<not> proof_ok then (None, fail_claim claim_id ''Generated proof is invalid'' c s2)
          else
            (case public_inputs of
               [] \<Rightarrow> (Some ''IndexError'', s2)
             | is_failure # rest \<Rightarrow>
                 if is_failure \<noteq> 1
                 then (None, fail_claim claim_id ''No API failure detected in HTTP response'' c s2)
                 else
                   (case c_agent_address c of
                      None \<Rightarrow> (Some ''KeyError: agent_address'', s2)
                    | Some to_address \<Rightarrow>
                   (case c_coverage_amount_units c of
                      None \<Rightarrow> (Some ''KeyError: coverage_amount_units'', s2)
                    | Some amount \<Rightarrow>
                   (case issue_refund ext of
                      Inl e \<Rightarrow> (Some e, call (IssueRefund to_address amount False) s2)
                    | Inr refund_tx_hash \<Rightarrow>
                   (let s3 = call (IssueRefund to_address amount True) s2 in
                    case c_coverage_amount c of
                      None \<Rightarrow> (Some ''KeyError: coverage_amount'', s3)
                    | Some coverage \<Rightarrow>
                        let c' = c\<lparr>c_proof := Some proof_hex,
                                   c_public_inputs := Some public_inputs,
                                   c_payout_amount := Some coverage,
                                   c_payout_amount_units := Some amount,
                                   c_refund_tx_hash := Some refund_tx_hash,
                                   c_recipient_address := Some to_address,
                                   c_status := ''paid'',
                                   c_paid_at := Some now,
                                   c_http_response := None\<rparr>
                        in (None,
                            s3\<lparr>claims := AList.update claim_id c' (claims s3),
                               policies := AList.update (c_policy_id c)
                                             (policy\<lparr>p_status := ''claimed''\<rparr>) (policies s3)\<rparr>))))))))))))"

definition process_claim_async :: "Outcomes \<Rightarrow> rat \<Rightarrow> string \<Rightarrow> Server \<Rightarrow> Server" where
  "process_claim_async ext now claim_id s =
     (case process_claim_async_try ext now claim_id s of
        (None, s') \<Rightarrow> s'
      | (Some e, s') \<Rightarrow>
          (case map_of (claims s') claim_id of
             None \<Rightarrow> s'
           | Some c \<Rightarrow>
               s'\<lparr>claims := AList.update claim_id
                               (c\<lparr>c_status := ''failed'', c_error := Some e, c_failed_at := Some now\<rparr>)
                               (claims s')\<rparr>))"

text \<open>\<^verbatim>\<open>GET /proofs/<claim_id>\<close>: the stored claim record, or 404 (\<open>None\<close>).\<close>

definition get_proof :: "string \<Rightarrow> Server \<Rightarrow> Claim option" where
  "get_proof claim_id s = map_of (claims s) claim_id"

section \<open>The EVM payment verifier (\<^verbatim>\<open>auth/payment_verifier.py\<close>)\<close>

text \<open>
  The state of a \<^verbatim>\<open>PaymentVerifier\<close> object: the checksummed backend and USDC
  addresses, the nonce cache, the time of the last cleanup, and the content of
  \<^verbatim>\<open>nonce_cache.json\<close>, which \<^verbatim>\<open>_save_nonces\<close> rewrites from the cache (a failed
  write is logged and ignored by the source, and not modelled). Its
  \<^verbatim>\<open>PaymentDetails\<close> has the fields of \<^verbatim>\<open>PaymentDetailsSolana\<close>; one record serves
  both.
\<close>

record PaymentVerifier =
  backend_address :: string
  usdc_address :: string
  pv_nonce_cache :: "(string, int) dict"
  pv_last_cleanup :: rat
  nonce_file :: "(string, int) dict"

text \<open>
  \<^verbatim>\<open>Web3.to_checksum_address\<close> is a library function and a parameter here: \<open>None\<close>
  when it raises on a string that is no address. So is the EIP-712 recovery of
  \<^verbatim>\<open>_verify_signature\<close>, as for the Solana verifier.
\<close>

type_synonym checksum = "string \<Rightarrow> string option"

definition save_nonces :: "PaymentVerifier \<Rightarrow> PaymentVerifier" where
  "save_nonces v = v\<lparr>nonce_file := pv_nonce_cache v\<rparr>"

definition PaymentVerifier_cleanup_old_nonces :: "Clock \<Rightarrow> PaymentVerifier \<Rightarrow> PaymentVerifier" where
  "PaymentVerifier_cleanup_old_nonces clk v =
     (let current_time = py_trunc (at_cleanup clk);
          cutoff_time = current_time - 3600;
          old_nonces = filter (\<lambda>(key, ts). ts < cutoff_time) (pv_nonce_cache v);
          v1 = v\<lparr>pv_nonce_cache := filter (\<lambda>(key, ts). \<not> ts < cutoff_time) (pv_nonce_cache v),
                 pv_last_cleanup := of_int current_time\<rparr>
      in if old_nonces \<noteq> [] then save_nonces v1 else v1)"

definition PaymentVerifier_is_nonce_used ::
  "Arith \<Rightarrow> Clock \<Rightarrow> PaymentVerifier \<Rightarrow> string \<Rightarrow> string \<Rightarrow> bool \<times> PaymentVerifier" where
  "PaymentVerifier_is_nonce_used ar clk v payer' nonce' =
     (let v1 = (if fl_sub ar (at_check clk) (pv_last_cleanup v) > cache_cleanup_interval
                then PaymentVerifier_cleanup_old_nonces clk v else v)
      in (map_of (pv_nonce_cache v1) (nonce_key (lower payer') nonce') \<noteq> None, v1))"

definition PaymentVerifier_mark_nonce_used ::
  "PaymentVerifier \<Rightarrow> string \<Rightarrow> string \<Rightarrow> int \<Rightarrow> PaymentVerifier" where
  "PaymentVerifier_mark_nonce_used v payer' nonce' timestamp' =
     save_nonces (v\<lparr>pv_nonce_cache :=
                      AList.update (nonce_key (lower payer') nonce') timestamp' (pv_nonce_cache v)\<rparr>)"

text \<open>
  \<^verbatim>\<open>PaymentVerifier.verify_payment\<close>: the same steps, with the recipient and the asset
  compared as checksummed addresses and the nonce key built from the lower-cased payer.
\<close>

definition PaymentVerifier_verify_payment ::
  "checksum \<Rightarrow> sigcheck \<Rightarrow> Arith \<Rightarrow> Clock \<Rightarrow> PaymentVerifier \<Rightarrow> string \<Rightarrow> string option
     \<Rightarrow> int \<Rightarrow> int \<Rightarrow> PaymentDetailsSolana \<times> PaymentVerifier" where
  "PaymentVerifier_verify_payment to_checksum_address eip712 ar clk v payment_header payer_address
       required_amount max_age_seconds =
     (let payment_data = parse_payment_header payment_header in
      if payment_data = [] then (blank_details, v)
      else
        let payer' = get_default payment_data ''payer'' (or_empty payer_address) in
        case int_field payment_data ''amount'' of
          None \<Rightarrow> (blank_details, v)
        | Some amount \<Rightarrow>
            let asset' = get_default payment_data ''asset'' (usdc_address v);
                pay_to' = get_default payment_data ''payTo'' (backend_address v) in
            (case int_field payment_data ''timestamp'' of
               None \<Rightarrow> (blank_details, v)
             | Some timestamp' \<Rightarrow>
                 let nonce' = get_default payment_data ''nonce'' [];
                     signature' = get_default payment_data ''signature'' [];
                     rejected = \<lparr>payer = payer', amount_units = amount, asset = asset',
                                 pay_to = pay_to', timestamp = timestamp', nonce = nonce',
                                 signature = signature', is_valid = False\<rparr>
                 in
                 if payer' = [] \<or> amount = 0 \<or> asset' = [] \<or> pay_to' = [] \<or> timestamp' = 0
                    \<or> nonce' = [] \<or> signature' = [] then (rejected, v)
                 else if amount \<noteq> required_amount then (rejected, v)
                 else
                   (case to_checksum_address pay_to' of
                      None \<Rightarrow> (blank_details, v)
                    | Some pay_to_sum \<Rightarrow>
                        if pay_to_sum \<noteq> backend_address v then (rejected, v)
                        else
                          (case to_checksum_address asset' of
                             None \<Rightarrow> (blank_details, v)
                           | Some asset_sum \<Rightarrow>
                               if asset_sum \<noteq> usdc_address v then (rejected, v)
                               else if timestamp' > py_trunc (at_verify clk) + 60
                               then (rejected, v)
                               else if py_trunc (at_verify clk) - timestamp' > max_age_seconds
                               then (rejected, v)
                               else
                                 (case PaymentVerifier_is_nonce_used ar clk v payer' nonce' of
                                    (used, v1) \<Rightarrow>
                                      if used then (rejected, v1)
                                      else
                                        let valid = verify_signature eip712 payer' amount asset'
                                                      pay_to' timestamp' nonce' signature'
                                        in (rejected\<lparr>is_valid := valid\<rparr>,
                                            if valid
                                            then PaymentVerifier_mark_nonce_used v1 payer' nonce' timestamp'
                                            else v1))))))"

section \<open>Concrete runs\<close>

text \<open>
  The data of the runs evaluated below: exact arithmetic (at the arguments of these runs
  the rounding operations of Python return the exact results: \<open>0.01 * 0.01\<close> is
  \<open>0.0001\<close>, times \<open>12 / 24\<close> is \<open>5e-05\<close>, and the differences are differences of
  integers), a clock whose three readings are the same, a signature check that accepts
  the signature \<^verbatim>\<open>good\<close>, a verifier for the backend key \<^verbatim>\<open>Bob\<close> and the mint
  \<^verbatim>\<open>USDC\<close> created at time 0, payments signed by \<^verbatim>\<open>Alice\<close> and \<^verbatim>\<open>Mallory\<close>, the default
  configuration (1% premium, at most 0.1 USDC of coverage, 24 hours, payments at most 300
  seconds old), one active policy \<^verbatim>\<open>P1\<close> of \<^verbatim>\<open>Alice\<close> over 0.01 USDC, a failed HTTP
  response (503, empty body), and the answers of the external services.
\<close>

definition exact_arith :: Arith where
  "exact_arith =
     \<lparr>dec_mul = (\<lambda>x y. x * y), float_of_dec = (\<lambda>x. x), fl_mul = (\<lambda>x y. x * y),
      fl_div = (\<lambda>x y. x / y), fl_add = (\<lambda>x y. x + y), fl_sub = (\<lambda>x y. x - y),
      timedelta_hours = (\<lambda>h. h * 3600)\<rparr>"

definition clock_at :: "rat \<Rightarrow> Clock" where
  "clock_at t = \<lparr>at_verify = t, at_check = t, at_cleanup = t\<rparr>"

definition demo_ed25519 :: sigcheck where
  "demo_ed25519 payer' amount asset' pay_to' timestamp' nonce' signature' \<longleftrightarrow> signature' = ''good''"

definition demo_verifier :: PaymentVerifierSolana where
  "demo_verifier = PaymentVerifierSolana_init 0 ''Bob'' ''USDC''"

definition signed_header :: string where
  "signed_header = ''payer=Alice,amount=100,asset=USDC,payTo=Bob,timestamp=1000,nonce=n1,signature=good''"

definition signed_again_header :: string where
  "signed_again_header = ''payer=Alice,amount=100,asset=USDC,payTo=Bob,timestamp=5000,nonce=n1,signature=good''"

definition forged_header :: string where
  "forged_header = ''payer=Alice,amount=100,asset=USDC,payTo=Bob,timestamp=5000,nonce=n2,signature=bad''"

definition short_header :: string where
  "short_header = ''amount=100,timestamp=1000,nonce=n1,signature=good''"

definition unsigned_header :: string where
  "unsigned_header = ''payer=Alice,amount=100,asset=USDC,payTo=Bob,timestamp=1000,nonce=n1''"

definition zero_header :: string where
  "zero_header = ''payer=Alice,amount=0,asset=USDC,payTo=Bob,timestamp=1000,nonce=n9,signature=good''"

definition mallory_header :: string where
  "mallory_header = ''payer=Mallory,amount=100,asset=USDC,payTo=Bob,timestamp=1000,nonce=n7,signature=good''"

definition used_verifier :: PaymentVerifierSolana where
  "used_verifier =
     snd (verify_payment demo_ed25519 exact_arith (clock_at 1000) demo_verifier signed_header None 100 300)"

text \<open>
  A verifier created at time 1000 that accepts, at that time, a payment of \<^verbatim>\<open>Alice\<close>
  signed at 900, and the payment signed again at 4600 with the same nonce.
\<close>

definition early_header :: string where
  "early_header = ''payer=Alice,amount=100,asset=USDC,payTo=Bob,timestamp=900,nonce=n1,signature=good''"

definition late_header :: string where
  "late_header = ''payer=Alice,amount=100,asset=USDC,payTo=Bob,timestamp=4600,nonce=n1,signature=good''"

definition early_verifier :: PaymentVerifierSolana where
  "early_verifier =
     snd (verify_payment demo_ed25519 exact_arith (clock_at 1000)
            (PaymentVerifierSolana_init 1000 ''Bob'' ''USDC'') early_header None 100 300)"

definition demo_config :: Config where
  "demo_config =
     \<lparr>PREMIUM_PERCENTAGE = 1 / 100, MAX_COVERAGE = 1 / 10, POLICY_DURATION = 24,
      PAYMENT_MAX_AGE_SECONDS = 300\<rparr>"

definition demo_policy :: Policy where
  "demo_policy =
     \<lparr>p_policy_id = ''P1'', p_agent_address = ''Alice'', p_merchant_url = ''https://api.example.com'',
      p_coverage_amount = 1 / 100, p_coverage_amount_units = Some 10000, p_premium = 1 / 10000,
      p_premium_units = 100, p_status = ''active'', p_created_at = 0, p_expires_at = 86400,
      p_renewed_at = None, p_renewal_count = None, p_total_renewal_fees = None\<rparr>"

definition demo_server :: Server where
  "demo_server =
     \<lparr>policies = [(''P1'', demo_policy)], claims = [], payment_verifier = Full demo_verifier,
      calls = [], threads = []\<rparr>"

definition http_503 :: HttpResponse where
  "http_503 = \<lparr>hr_status = Some 503, hr_body = Some [], hr_headers = None\<rparr>"

definition services_ok :: Outcomes where
  "services_ok =
     \<lparr>generate_proof = Inr (''PROOF'', [1, 503, 0, 10000], 12), verify_proof = Inr True,
      store_proof_on_chain = Inr ''ATTESTATION'', issue_refund = Inr ''REFUND''\<rparr>"

definition refund_fails :: Outcomes where
  "refund_fails = services_ok\<lparr>issue_refund := Inl ''network error''\<rparr>"

definition proof_fails :: Outcomes where
  "proof_fails = services_ok\<lparr>generate_proof := Inl ''zkEngine timeout''\<rparr>"

definition async_request :: "string option \<Rightarrow> ClaimRequest" where
  "async_request key =
     \<lparr>cr_policy_id = Some ''P1'', cr_http_response = Some http_503, cr_idempotency_key = key,
      cr_async = Some ''true''\<rparr>"

definition sync_request :: "string option \<Rightarrow> ClaimRequest" where
  "sync_request key =
     \<lparr>cr_policy_id = Some ''P1'', cr_http_response = Some http_503, cr_idempotency_key = key,
      cr_async = None\<rparr>"

text \<open>The state after one asynchronous submission for \<^verbatim>\<open>P1\<close>, with and without a key.\<close>

definition one_async_claim :: "string option \<Rightarrow> Server" where
  "one_async_claim key = snd (claim services_ok 100 ''C1'' (async_request key) demo_server)"

text \<open>
  Two asynchronous submissions for \<^verbatim>\<open>P1\<close> without a key, one second apart, and then the
  two workers, each run to its end.
\<close>

definition two_async_claims :: Server where
  "two_async_claims = snd (claim services_ok 101 ''C2'' (async_request None) (one_async_claim None))"

definition two_workers_done :: Server where
  "two_workers_done =
     process_claim_async services_ok 121 ''C2'' (process_claim_async services_ok 120 ''C1'' two_async_claims)"

definition tiny_coverage_request :: InsureRequest where
  "tiny_coverage_request =
     \<lparr>ir_merchant_url = JStr ''https://api.example.com'', ir_coverage_amount = JNum (1 / 100000),
      ir_payment_header = Some zero_header, ir_payer_header = Some ''Alice''\<rparr>"

definition large_coverage_request :: InsureRequest where
  "large_coverage_request =
     \<lparr>ir_merchant_url = JStr ''https://api.example.com'', ir_coverage_amount = JNum 5,
      ir_payment_header = Some signed_header, ir_payer_header = Some ''Alice''\<rparr>"

definition alice_header :: string where
  "alice_header = ''payer=ALICE,amount=50,asset=USDC,payTo=Bob,timestamp=1000,nonce=n3,signature=good''"

definition alice_renewal :: RenewRequest where
  "alice_renewal =
     \<lparr>rr_policy_id = JStr ''P1'', rr_extend_hours = Some (JNum 12), rr_payment_header = Some alice_header,
      rr_payer_header = Some ''ALICE''\<rparr>"

text \<open>Requests for coverage whose \<^verbatim>\<open>coverage_amount\<close> is the string \<^verbatim>\<open>"5"\<close>, and \<^verbatim>\<open>NaN\<close>.\<close>

definition string_coverage_request :: InsureRequest where
  "string_coverage_request = large_coverage_request\<lparr>ir_coverage_amount := JStr ''5''\<rparr>"

definition nan_coverage_request :: InsureRequest where
  "nan_coverage_request = large_coverage_request\<lparr>ir_coverage_amount := JNaN\<rparr>"

definition mallory_renewal :: RenewRequest where
  "mallory_renewal =
     \<lparr>rr_policy_id = JStr ''P1'', rr_extend_hours = None, rr_payment_header = Some mallory_header,
      rr_payer_header = Some ''Mallory''\<rparr>"

section \<open>Properties of the payment verifier\<close>

lemma py_int_Nil: "py_int [] = None"
  by (simp add: py_int_def strip_def)

lemma verify_payment_cases:
  assumes "verify_payment ed25519 ar clk v hdr pa req age = (d, v')"
  shows "(\<not> is_valid d \<and> v' = v)
       \<or> (\<not> is_valid d \<and> v' = snd (is_nonce_used ar clk v (payer d) (nonce d)))
       \<or> (is_valid d \<and> \<not> fst (is_nonce_used ar clk v (payer d) (nonce d))
            \<and> v' = mark_nonce_used (snd (is_nonce_used ar clk v (payer d) (nonce d)))
                     (payer d) (nonce d) (timestamp d))"
  using assms
  unfolding verify_payment_def Let_def blank_details_def
  by (simp split: option.splits prod.splits if_splits) auto

lemma is_nonce_used_kept:
  assumes "map_of (nonce_cache v) k = Some ts"
    and "fl_sub ar (at_check clk) (last_cleanup v) \<le> 3600 \<or> py_trunc (at_cleanup clk) - 3600 \<le> ts"
  shows "map_of (nonce_cache (snd (is_nonce_used ar clk v p n))) k = Some ts"
  using assms
  by (auto simp: is_nonce_used_def Let_def cleanup_old_nonces_def cache_cleanup_interval_def
       intro!: map_of_filter_in)

lemma is_nonce_used_fst:
  "fst (is_nonce_used ar clk v p n) \<longleftrightarrow>
     map_of (nonce_cache (snd (is_nonce_used ar clk v p n))) (nonce_key p n) \<noteq> None"
  by (simp add: is_nonce_used_def Let_def)

lemma is_nonce_used_cache:
  "nonce_cache (snd (is_nonce_used ar clk v p n)) =
     (if fl_sub ar (at_check clk) (last_cleanup v) > 3600
      then filter (\<lambda>(key, t). \<not> t < py_trunc (at_cleanup clk) - 3600) (nonce_cache v)
      else nonce_cache v)"
  by (simp add: is_nonce_used_def Let_def cleanup_old_nonces_def cache_cleanup_interval_def)

text \<open>
  Claim C6, as stated, fails. The payment of \<^verbatim>\<open>Alice\<close> with nonce \<^verbatim>\<open>n1\<close> is
  verified at time 1000 and its nonce marked. At time 5000 a cleanup is due and the entry
  is older than one hour: the same payer and nonce, signed again with timestamp 5000, are
  accepted. And a call that fails (bad signature) at that time has removed the entry from
  the nonce cache.
\<close>

theorem replay_accepted_after_cleanup:
  "is_valid (fst (verify_payment demo_ed25519 exact_arith (clock_at 1000) demo_verifier signed_header
                    None 100 300))
   \<and> map_of (nonce_cache used_verifier) (nonce_key ''Alice'' ''n1'') = Some 1000
   \<and> is_valid (fst (verify_payment demo_ed25519 exact_arith (clock_at 5000) used_verifier
                      signed_again_header None 100 300))
   \<and> \<not> is_valid (fst (verify_payment demo_ed25519 exact_arith (clock_at 5000) used_verifier
                        forged_header None 100 300))
   \<and> nonce_cache (snd (verify_payment demo_ed25519 exact_arith (clock_at 5000) used_verifier
                         forged_header None 100 300))
       \<noteq> nonce_cache used_verifier"
  by code_simp

text \<open>
  The cleanup is decided on the float clock. With the last cleanup at 1000 and an entry
  of timestamp 900, the nonce is still refused at time 4600 and is accepted again at
  4600.5, when the difference 3600.5 exceeds the interval and the cleanup, reading the
  integer time 4600, removes the entries below 1000.
\<close>

lemma cleanup_due_on_float_clock:
  "map_of (nonce_cache early_verifier) (nonce_key ''Alice'' ''n1'') = Some 900
   \<and> last_cleanup early_verifier = 1000
   \<and> \<not> is_valid (fst (verify_payment demo_ed25519 exact_arith (clock_at 4600) early_verifier
                        late_header None 100 300))
   \<and> is_valid (fst (verify_payment demo_ed25519 exact_arith (clock_at (9201 / 2)) early_verifier
                      late_header None 100 300))"
  by code_simp

text \<open>
  Claim C6, amended. If the key of the presented payer and nonce is in the nonce cache,
  and the entry is not removed during the call (no cleanup is due, that is the float
  difference \<^verbatim>\<open>time.time() - last_cleanup\<close> is at most 3600, or the entry's timestamp
  is not below \<^verbatim>\<open>int(time.time()) - 3600\<close> as read by the cleanup), the payment is not
  valid. And a call that returns \<^verbatim>\<open>is_valid = False\<close> marks no nonce: the cache is
  unchanged, or a cleanup was due and the cache is the old one without the entries older
  than one hour. This holds for every float arithmetic and every three clock readings.
\<close>

theorem replay_rejected_unless_collected:
  assumes "verify_payment ed25519 ar clk v payment_header payer_address required_amount max_age = (d, v')"
  shows "(map_of (nonce_cache v) (nonce_key (payer d) (nonce d)) = Some ts
           \<and> (fl_sub ar (at_check clk) (last_cleanup v) \<le> 3600
               \<or> py_trunc (at_cleanup clk) - 3600 \<le> ts) \<longrightarrow> \<not> is_valid d)
       \<and> (\<not> is_valid d \<longrightarrow>
             nonce_cache v' = nonce_cache v
             \<or> (fl_sub ar (at_check clk) (last_cleanup v) > 3600
                 \<and> nonce_cache v'
                     = filter (\<lambda>(key, t). \<not> t < py_trunc (at_cleanup clk) - 3600) (nonce_cache v)))"
proof (intro conjI impI)
  assume h: "map_of (nonce_cache v) (nonce_key (payer d) (nonce d)) = Some ts
           \<and> (fl_sub ar (at_check clk) (last_cleanup v) \<le> 3600
               \<or> py_trunc (at_cleanup clk) - 3600 \<le> ts)"
  show "\<not> is_valid d"
  proof
    assume "is_valid d"
    with verify_payment_cases [OF assms]
    have "\<not> fst (is_nonce_used ar clk v (payer d) (nonce d))" by blast
    then have "map_of (nonce_cache (snd (is_nonce_used ar clk v (payer d) (nonce d))))
                 (nonce_key (payer d) (nonce d)) = None"
      by (simp add: is_nonce_used_fst)
    moreover from h have "map_of (nonce_cache (snd (is_nonce_used ar clk v (payer d) (nonce d))))
                 (nonce_key (payer d) (nonce d)) = Some ts"
      by (intro is_nonce_used_kept) auto
    ultimately show False by simp
  qed
next
  assume "\<not> is_valid d"
  with verify_payment_cases [OF assms]
  have "v' = v \<or> v' = snd (is_nonce_used ar clk v (payer d) (nonce d))" by blast
  then show "nonce_cache v' = nonce_cache v
             \<or> (fl_sub ar (at_check clk) (last_cleanup v) > 3600
                 \<and> nonce_cache v'
                     = filter (\<lambda>(key, t). \<not> t < py_trunc (at_cleanup clk) - 3600) (nonce_cache v))"
    by (auto simp: is_nonce_used_cache split: if_splits)
qed

text \<open>
  The amended claim C6 at a concrete input: the payment verified at time 1000 is
  presented again at time 1100.
\<close>

theorem replay_rejected_unless_collected_witness:
  "\<not> is_valid (fst (verify_payment demo_ed25519 exact_arith (clock_at 1100) used_verifier signed_header
                      None 100 300))
   \<and> nonce_cache (snd (verify_payment demo_ed25519 exact_arith (clock_at 1100) used_verifier
                         signed_header None 100 300))
       = nonce_cache used_verifier"
proof -
  define r where
    "r = verify_payment demo_ed25519 exact_arith (clock_at 1100) used_verifier signed_header None 100 300"
  have run: "verify_payment demo_ed25519 exact_arith (clock_at 1100) used_verifier signed_header
               None 100 300 = (fst r, snd r)"
    by (simp add: r_def)
  have marked: "map_of (nonce_cache used_verifier) (nonce_key (payer (fst r)) (nonce (fst r))) = Some 1000
                \<and> (fl_sub exact_arith (at_check (clock_at 1100)) (last_cleanup used_verifier) \<le> 3600
                    \<or> py_trunc (at_cleanup (clock_at 1100)) - 3600 \<le> 1000)"
    unfolding r_def by code_simp
  have not_due: "\<not> fl_sub exact_arith (at_check (clock_at 1100)) (last_cleanup used_verifier) > 3600"
    by code_simp
  from replay_rejected_unless_collected [OF run, where ts = 1000] marked not_due
  show ?thesis unfolding r_def by blast
qed

lemma fields_checked:
  assumes "map_of pd ''amount'' = None \<or> map_of pd ''amount'' = Some []
       \<or> (\<exists>z. map_of pd ''amount'' = Some z \<and> py_int z = Some 0)
       \<or> map_of pd ''timestamp'' = None \<or> map_of pd ''timestamp'' = Some []
       \<or> (\<exists>z. map_of pd ''timestamp'' = Some z \<and> py_int z = Some 0)
       \<or> map_of pd ''nonce'' = None \<or> map_of pd ''nonce'' = Some []
       \<or> map_of pd ''signature'' = None \<or> map_of pd ''signature'' = Some []
       \<or> map_of pd ''payer'' = Some [] \<or> (map_of pd ''payer'' = None \<and> or_empty payer_address = [])
       \<or> map_of pd ''asset'' = Some [] \<or> map_of pd ''payTo'' = Some []"
  shows "int_field pd ''amount'' = None \<or> int_field pd ''timestamp'' = None
     \<or> get_default pd ''payer'' (or_empty payer_address) = []
     \<or> int_field pd ''amount'' = Some 0 \<or> get_default pd ''asset'' a = []
     \<or> get_default pd ''payTo'' b = [] \<or> int_field pd ''timestamp'' = Some 0
     \<or> get_default pd ''nonce'' [] = [] \<or> get_default pd ''signature'' [] = []"
  using assms by (auto simp: int_field_def get_default_def py_int_Nil)

text \<open>
  Claim C7, as stated, fails. A header without \<^verbatim>\<open>payer\<close>, \<^verbatim>\<open>asset\<close> and
  \<^verbatim>\<open>payTo\<close> is verified: the payer is taken from the \<^verbatim>\<open>X-Payer\<close> header and the
  asset and the recipient from the verifier's configuration.
\<close>

theorem absent_fields_default_and_verify:
  "map_of (parse_payment_header short_header) ''payer'' = None
   \<and> map_of (parse_payment_header short_header) ''asset'' = None
   \<and> map_of (parse_payment_header short_header) ''payTo'' = None
   \<and> is_valid (fst (verify_payment demo_ed25519 exact_arith (clock_at 1000) demo_verifier short_header
                      (Some ''Alice'') 100 300))"
  by code_simp

text \<open>
  Claim C7, amended. Both verifiers return \<^verbatim>\<open>is_valid = False\<close> when \<^verbatim>\<open>amount\<close>
  or \<^verbatim>\<open>timestamp\<close> is absent from the parsed header, empty or zero; when \<^verbatim>\<open>nonce\<close>
  or \<^verbatim>\<open>signature\<close> is absent or empty; when \<^verbatim>\<open>payer\<close>, \<^verbatim>\<open>asset\<close> or
  \<^verbatim>\<open>payTo\<close> is present and empty; and when \<^verbatim>\<open>payer\<close> is absent and no
  \<^verbatim>\<open>X-Payer\<close> value is given. (An absent \<^verbatim>\<open>asset\<close> or \<^verbatim>\<open>payTo\<close> takes the
  configured value.)
\<close>

theorem missing_field_invalid:
  assumes "pd = parse_payment_header payment_header"
    and "map_of pd ''amount'' = None \<or> map_of pd ''amount'' = Some []
       \<or> (\<exists>z. map_of pd ''amount'' = Some z \<and> py_int z = Some 0)
       \<or> map_of pd ''timestamp'' = None \<or> map_of pd ''timestamp'' = Some []
       \<or> (\<exists>z. map_of pd ''timestamp'' = Some z \<and> py_int z = Some 0)
       \<or> map_of pd ''nonce'' = None \<or> map_of pd ''nonce'' = Some []
       \<or> map_of pd ''signature'' = None \<or> map_of pd ''signature'' = Some []
       \<or> map_of pd ''payer'' = Some [] \<or> (map_of pd ''payer'' = None \<and> or_empty payer_address = [])
       \<or> map_of pd ''asset'' = Some [] \<or> map_of pd ''payTo'' = Some []"
  shows "\<not> is_valid (fst (verify_payment ed25519 ar clk v payment_header payer_address required_amount
                           max_age))
       \<and> \<not> is_valid (fst (PaymentVerifier_verify_payment to_checksum_address eip712 ar clk w
                              payment_header payer_address required_amount max_age))"
proof
  from fields_checked [OF assms(2), of "usdc_mint v" "backend_pubkey v"] assms(1)
  show "\<not> is_valid (fst (verify_payment ed25519 ar clk v payment_header payer_address required_amount
                           max_age))"
    by (auto simp: verify_payment_def Let_def blank_details_def split: option.split prod.split)
  from fields_checked [OF assms(2), of "usdc_address w" "backend_address w"] assms(1)
  show "\<not> is_valid (fst (PaymentVerifier_verify_payment to_checksum_address eip712 ar clk w
                              payment_header payer_address required_amount max_age))"
    by (auto simp: PaymentVerifier_verify_payment_def Let_def blank_details_def
          split: option.split prod.split)
qed

text \<open>The amended claim C7 at a concrete input: a header without a signature is rejected.\<close>

theorem missing_field_invalid_witness:
  "map_of (parse_payment_header unsigned_header) ''signature'' = None
   \<and> \<not> is_valid (fst (verify_payment demo_ed25519 exact_arith (clock_at 1000) demo_verifier
                        unsigned_header None 100 300))"
proof -
  have absent: "map_of (parse_payment_header unsigned_header) ''signature'' = None"
    by code_simp
  from missing_field_invalid
         [OF refl, of unsigned_header None demo_ed25519 exact_arith "clock_at 1000" demo_verifier 100 300]
    absent
  show ?thesis by blast
qed

lemma verify_zero: "\<not> is_valid (fst (verify_payment ed25519 ar clk v hdr pa 0 age))"
  by (simp add: verify_payment_def Let_def blank_details_def split: option.split prod.split)

text \<open>
  Claim C8. With \<^verbatim>\<open>required_amount = 0\<close> the result of \<^verbatim>\<open>verify_payment\<close> is never
  valid, whatever the header, the state and the clock: the amount 0 fails the field
  check and any other amount differs from 0. So \<^verbatim>\<open>insure\<close> with the full verifier
  creates no policy for a coverage whose premium, as the code rounds it, is 0 units.
\<close>

theorem zero_required_amount_never_valid:
  "\<not> is_valid (fst (verify_payment ed25519 ar clk v payment_header payer_address 0 max_age))
   \<and> (ir_coverage_amount req = JNum c \<and> to_micro (premium_of ar config c) = 0
        \<and> payment_verifier s = Full v \<longrightarrow>
          policies (snd (insure ed25519 ar clk config now new_id db_ok req s)) = policies s
          \<and> (\<forall>p. fst (insure ed25519 ar clk config now new_id db_ok req s) \<noteq> InsureCreated p))"
proof (intro conjI impI)
  show "\<not> is_valid (fst (verify_payment ed25519 ar clk v payment_header payer_address 0 max_age))"
    by (rule verify_zero)
next
  assume h: "ir_coverage_amount req = JNum c \<and> to_micro (premium_of ar config c) = 0
        \<and> payment_verifier s = Full v"
  have nv: "\<And>hdr pa age d v'. verify_payment ed25519 ar clk v hdr pa 0 age = (d, v') \<Longrightarrow> \<not> is_valid d"
    using verify_zero by (metis fst_conv)
  from h nv show "policies (snd (insure ed25519 ar clk config now new_id db_ok req s)) = policies s"
    by (auto simp: insure_def json_falsy_def Let_def split: prod.split)
  from h nv show "\<forall>p. fst (insure ed25519 ar clk config now new_id db_ok req s) \<noteq> InsureCreated p"
    by (auto simp: insure_def json_falsy_def Let_def split: prod.split)
qed

text \<open>
  Claim C8 at a concrete input: the premium of 0.00001 USDC of coverage is 0 units, and
  the payment of 0 units is answered 402.
\<close>

theorem zero_required_amount_never_valid_witness:
  "to_micro (premium_of exact_arith demo_config (1 / 100000)) = 0
   \<and> policies (snd (insure demo_ed25519 exact_arith (clock_at 1000) demo_config 1000 ''P2'' True
                      tiny_coverage_request demo_server))
       = policies demo_server
   \<and> fst (insure demo_ed25519 exact_arith (clock_at 1000) demo_config 1000 ''P2'' True
             tiny_coverage_request demo_server)
       = InsurePaymentFailed 0"
proof -
  have h: "ir_coverage_amount tiny_coverage_request = JNum (1 / 100000)
           \<and> to_micro (premium_of exact_arith demo_config (1 / 100000)) = 0
           \<and> payment_verifier demo_server = Full demo_verifier"
    by code_simp
  have r: "fst (insure demo_ed25519 exact_arith (clock_at 1000) demo_config 1000 ''P2'' True
                  tiny_coverage_request demo_server)
       = InsurePaymentFailed 0"
    by code_simp
  from zero_required_amount_never_valid
         [of demo_ed25519 exact_arith "clock_at 1000" demo_verifier zero_header None 300
             tiny_coverage_request "1 / 100000" demo_config demo_server 1000 "''P2''" True] h r
  show ?thesis by blast
qed

section \<open>Properties of \<^verbatim>\<open>insure\<close> and \<^verbatim>\<open>renew_policy\<close>\<close>

text \<open>
  A \<^verbatim>\<open>coverage_amount\<close> that is absent or \<^verbatim>\<open>null\<close>, a number that is not positive
  or above the maximum, and an infinity are answered 400 before the payment is looked at,
  with the state unchanged.
\<close>

lemma insure_rejects_numeric_violations:
  assumes "ir_coverage_amount req = JNull
         \<or> (\<exists>c. ir_coverage_amount req = JNum c \<and> (c \<le> 0 \<or> c > MAX_COVERAGE config))
         \<or> (\<exists>positive. ir_coverage_amount req = JInfinity positive)"
  shows "\<exists>msg. insure ed25519 ar clk config now new_id db_ok req s = (InsureError 400 msg, s)"
  using assms by (auto simp: insure_def json_falsy_def)

text \<open>
  Claim C9 does not hold for a \<^verbatim>\<open>coverage_amount\<close> that is no number. The string
  \<^verbatim>\<open>"5"\<close> raises \<^verbatim>\<open>TypeError\<close> at the comparison with 0, and \<^verbatim>\<open>NaN\<close> passes
  the three tests and \<^verbatim>\<open>to_micro\<close> raises \<^verbatim>\<open>ValueError\<close> on the premium: both
  are answered 500, not 400. (No policy is created and the verifier is not called.)
\<close>

theorem insure_non_number_coverage_unhandled:
  "insure demo_ed25519 exact_arith (clock_at 1000) demo_config 1000 ''P2'' True
     string_coverage_request demo_server = (InsureUnhandled ''TypeError'', demo_server)
   \<and> insure demo_ed25519 exact_arith (clock_at 1000) demo_config 1000 ''P2'' True
       nan_coverage_request demo_server = (InsureUnhandled ''ValueError'', demo_server)
   \<and> insure_http_status (InsureUnhandled ''TypeError'') = 500
   \<and> insure_http_status (InsureUnhandled ''ValueError'') = 500"
  by code_simp

text \<open>
  Claim C10. A run of \<^verbatim>\<open>renew_policy\<close> changes the policies only if the payment for
  the renewal fee, as the code computes it, was verified and its payer equals the owner
  of the policy after lower-casing both. And a run that reaches a valid payment whose
  payer differs from the owner is answered 403 with the policies unchanged. This holds
  for every float arithmetic and every number of hours that passes the range check.
\<close>

theorem renew_only_by_owner:
  assumes "renew_policy ed25519 ar clk config now req s = (resp, s')"
  shows "(policies s' \<noteq> policies s \<longrightarrow>
            (\<exists>policy_id policy h d. rr_policy_id req = JStr policy_id
               \<and> map_of (policies s) policy_id = Some policy
               \<and> as_number (extend_hours_of req) = Some (Fin h)
               \<and> d = fst (pv_verify_payment ed25519 ar clk (payment_verifier s)
                           (or_empty (rr_payment_header req)) (rr_payer_header req)
                           (to_micro (renewal_fee_of ar config policy h))
                           (PAYMENT_MAX_AGE_SECONDS config))
               \<and> is_valid d \<and> lower (payer d) = lower (p_agent_address policy)))
       \<and> (\<forall>policy_id policy h d. rr_policy_id req = JStr policy_id \<and> policy_id \<noteq> []
               \<and> map_of (policies s) policy_id = Some policy
               \<and> as_number (extend_hours_of req) = Some (Fin h)
               \<and> d = fst (pv_verify_payment ed25519 ar clk (payment_verifier s)
                           (or_empty (rr_payment_header req)) (rr_payer_header req)
                           (to_micro (renewal_fee_of ar config policy h))
                           (PAYMENT_MAX_AGE_SECONDS config))
               \<and> 1 \<le> h \<and> h \<le> 168
               \<and> p_status policy = ''active'' \<and> \<not> p_expires_at policy < now
               \<and> \<not> falsy (rr_payment_header req) \<and> \<not> falsy (rr_payer_header req)
               \<and> is_valid d \<and> lower (payer d) \<noteq> lower (p_agent_address policy) \<longrightarrow>
              resp = RenewError 403 ''Only policy owner can renew policy'' \<and> policies s' = policies s)"
proof (cases "rr_policy_id req")
  case (JStr policy_id)
  with assms show ?thesis
    by (auto simp: renew_policy_def json_falsy_def Let_def
          split: if_splits prod.splits option.splits number.splits)
qed (use assms in \<open>auto simp: renew_policy_def json_falsy_def Let_def split: if_splits option.splits\<close>)

text \<open>
  Claim C10 at concrete inputs: \<^verbatim>\<open>Mallory\<close> pays the fee of 24 hours for the policy of
  \<^verbatim>\<open>Alice\<close> and gets 403; the payer \<^verbatim>\<open>ALICE\<close> pays 50 units for 12 hours and the
  policy is renewed.
\<close>

theorem renew_only_by_owner_witness:
  "fst (renew_policy demo_ed25519 exact_arith (clock_at 1000) demo_config 1000 mallory_renewal demo_server)
     = RenewError 403 ''Only policy owner can renew policy''
   \<and> policies (snd (renew_policy demo_ed25519 exact_arith (clock_at 1000) demo_config 1000
                      mallory_renewal demo_server))
       = policies demo_server
   \<and> policies (snd (renew_policy demo_ed25519 exact_arith (clock_at 1000) demo_config 1000
                      alice_renewal demo_server))
       \<noteq> policies demo_server
   \<and> (\<exists>policy d. map_of (policies demo_server) ''P1'' = Some policy
         \<and> d = fst (pv_verify_payment demo_ed25519 exact_arith (clock_at 1000)
                      (payment_verifier demo_server) alice_header (Some ''ALICE'') 50 300)
         \<and> is_valid d \<and> lower (payer d) = lower (p_agent_address policy))"
proof -
  define r where
    "r = renew_policy demo_ed25519 exact_arith (clock_at 1000) demo_config 1000 mallory_renewal demo_server"
  define d where
    "d = fst (pv_verify_payment demo_ed25519 exact_arith (clock_at 1000) (payment_verifier demo_server)
               (or_empty (rr_payment_header mallory_renewal)) (rr_payer_header mallory_renewal)
               (to_micro (renewal_fee_of exact_arith demo_config demo_policy 24))
               (PAYMENT_MAX_AGE_SECONDS demo_config))"
  define q where
    "q = renew_policy demo_ed25519 exact_arith (clock_at 1000) demo_config 1000 alice_renewal demo_server"
  have run: "renew_policy demo_ed25519 exact_arith (clock_at 1000) demo_config 1000 mallory_renewal
               demo_server = (fst r, snd r)"
    by (simp add: r_def)
  have run2: "renew_policy demo_ed25519 exact_arith (clock_at 1000) demo_config 1000 alice_renewal
                demo_server = (fst q, snd q)"
    by (simp add: q_def)
  have h: "rr_policy_id mallory_renewal = JStr ''P1'' \<and> ''P1'' \<noteq> []
           \<and> map_of (policies demo_server) ''P1'' = Some demo_policy
           \<and> as_number (extend_hours_of mallory_renewal) = Some (Fin 24)
           \<and> (1::rat) \<le> 24 \<and> (24::rat) \<le> 168
           \<and> p_status demo_policy = ''active'' \<and> \<not> p_expires_at demo_policy < 1000
           \<and> \<not> falsy (rr_payment_header mallory_renewal) \<and> \<not> falsy (rr_payer_header mallory_renewal)
           \<and> is_valid d \<and> lower (payer d) \<noteq> lower (p_agent_address demo_policy)"
    unfolding d_def by code_simp
  have changed: "policies (snd q) \<noteq> policies demo_server"
    unfolding q_def by code_simp
  have args: "rr_policy_id alice_renewal = JStr ''P1''"
    "or_empty (rr_payment_header alice_renewal) = alice_header"
    "rr_payer_header alice_renewal = Some ''ALICE''"
    "PAYMENT_MAX_AGE_SECONDS demo_config = 300"
    "map_of (policies demo_server) ''P1'' = Some demo_policy"
    "as_number (extend_hours_of alice_renewal) = Some (Fin 12)"
    "to_micro (renewal_fee_of exact_arith demo_config demo_policy 12) = 50"
    by code_simp+
  from renew_only_by_owner [OF run] h d_def
  have a: "fst r = RenewError 403 ''Only policy owner can renew policy''
           \<and> policies (snd r) = policies demo_server"
    by blast
  from renew_only_by_owner [OF run2] changed
  have b: "\<exists>policy d. map_of (policies demo_server) ''P1'' = Some policy
         \<and> d = fst (pv_verify_payment demo_ed25519 exact_arith (clock_at 1000)
                      (payment_verifier demo_server) alice_header (Some ''ALICE'') 50 300)
         \<and> is_valid d \<and> lower (payer d) = lower (p_agent_address policy)"
    by (auto simp: args)
  from a b changed show ?thesis unfolding r_def q_def by simp
qed

section \<open>Properties of the claim handler and the worker\<close>

lemma worker_calls_need_record:
  "map_of (claims s) claim_id = None \<Longrightarrow> process_claim_async ext now claim_id s = s"
  by (simp add: process_claim_async_def process_claim_async_try_def)

text \<open>
  The asynchronous branch of the handler. A submission that passes the checks (policy id
  and HTTP response given, with status and body; no stored claim under the idempotency
  key; policy found, active and not expired) is answered 202 after the claim is stored
  with status \<^verbatim>\<open>processing\<close>; the handler makes no external call and starts the
  thread for the claim; and a worker that does not find its claim stored does nothing.
\<close>

lemma async_claim_persists_processing_first:
  assumes "claim ext now new_id req s = (resp, s')"
    and "\<not> falsy (cr_policy_id req)"
    and "cr_http_response req = Some h" and "hr_status h = Some st" and "hr_body h = Some b"
    and "falsy (cr_idempotency_key req)
         \<or> find_idempotent (or_empty (cr_idempotency_key req)) (claims s) = None"
    and "map_of (policies s) (or_empty (cr_policy_id req)) = Some policy"
    and "p_status policy = ''active''" and "\<not> p_expires_at policy < now"
    and "async_mode (cr_async req)"
  shows "resp = ClaimAccepted new_id (or_empty (cr_policy_id req))
       \<and> (\<exists>c. map_of (claims s') new_id = Some c \<and> c_status c = ''processing'')
       \<and> calls s' = calls s
       \<and> threads s' = threads s @ [new_id]
       \<and> (\<forall>ext' t u. map_of (claims u) new_id = None \<longrightarrow> process_claim_async ext' t new_id u = u)"
proof -
  from assms(6)
  have k: "(if falsy (cr_idempotency_key req) then None
            else find_idempotent (or_empty (cr_idempotency_key req)) (claims s)) = None"
    by auto
  from assms(1-5,7-10) show ?thesis
    by (auto simp: claim_def k claim_async_def empty_response_def update_conv' worker_calls_need_record)
qed

text \<open>The asynchronous branch at a concrete input: a submission for \<^verbatim>\<open>P1\<close>.\<close>

lemma async_claim_persists_processing_first_example:
  "fst (claim services_ok 100 ''C1'' (async_request None) demo_server) = ClaimAccepted ''C1'' ''P1''
   \<and> map_option c_status (get_proof ''C1'' (one_async_claim None)) = Some ''processing''
   \<and> calls (one_async_claim None) = []
   \<and> threads (one_async_claim None) = [''C1'']"
  by code_simp

text \<open>
  The synchronous branch of the handler writes a claim record at one place only: after
  the refund, as \<^verbatim>\<open>paid\<close>. Every other run leaves the claim records as they were,
  whatever calls it has made.
\<close>

lemma claim_sync_writes_only_paid:
  assumes "claim_sync ext now claim_id policy_id policy h key s = (resp, s')"
  shows "claims s' = claims s
       \<or> (\<exists>c. resp = ClaimPaid c \<and> c_status c = ''paid''
              \<and> claims s' = AList.update claim_id c (claims s))"
  using assms
  by (auto simp: claim_sync_def call_def Let_def split: option.splits sum.splits prod.splits if_splits)

lemma claim_sync_calls_first:
  assumes "claim_sync ext now claim_id policy_id policy h key s = (resp, s')"
  shows "\<exists>cs. calls s' = calls s @ cs \<and> (cs = [] \<or> hd cs = GenerateProof)"
  using assms
  by (auto simp: claim_sync_def call_def Let_def split: option.splits sum.splits prod.splits if_splits)

text \<open>
  Claim C4 does not hold in the synchronous mode. Here a synchronous submission passes
  the checks, the zkEngine is called and raises, and no claim record exists; and when all
  calls succeed the only record stored is \<^verbatim>\<open>paid\<close>. The asynchronous branch of the
  same handler stores the \<^verbatim>\<open>processing\<close> record first.
\<close>

theorem sync_claim_calls_out_without_record:
  "fst (claim proof_fails 100 ''C1'' (sync_request None) demo_server)
     = ClaimError 500 ''Proof generation failed: zkEngine timeout''
   \<and> calls (snd (claim proof_fails 100 ''C1'' (sync_request None) demo_server)) = [GenerateProof]
   \<and> claims (snd (claim proof_fails 100 ''C1'' (sync_request None) demo_server)) = []
   \<and> map (c_status \<circ> snd)
        (claims (snd (claim services_ok 100 ''C1'' (sync_request None) demo_server))) = [''paid'']"
  by code_simp

lemma claim_sync_refund_failed:
  assumes "claim_sync ext now claim_id policy_id policy h key s = (resp, s')"
    and "calls s' = calls s @ cs"
    and "IssueRefund a u False \<in> set cs"
  shows "\<exists>e att. issue_refund ext = Inl e \<and> store_proof_on_chain ext = Inr att
           \<and> resp = ClaimRefundFailed (''Refund failed: '' @ e) att
           \<and> claims s' = claims s \<and> policies s' = policies s
           \<and> cs = [GenerateProof, VerifyProof, StoreProofOnChain claim_id True, IssueRefund a u False]"
  using assms
  by (auto simp: claim_sync_def call_def Let_def split: option.splits sum.splits prod.splits if_splits)

lemma claim_async_no_calls:
  "claim_async now claim_id policy_id policy h key s = (resp, s') \<Longrightarrow> calls s' = calls s"
  by (auto simp: claim_async_def Let_def split: option.splits)

lemma claim_sync_or_quiet:
  assumes "claim ext now new_id req s = (resp, s')"
  shows "calls s' = calls s
       \<or> (\<exists>policy h. claim_sync ext now new_id (or_empty (cr_policy_id req)) policy h (cr_idempotency_key req) s = (resp, s'))"
  using assms
  by (auto simp: claim_def split: option.splits if_splits dest: claim_async_no_calls)

lemma try_refund_failed:
  assumes "process_claim_async_try ext now claim_id s = (r, s')"
    and "calls s' = calls s @ cs"
    and "IssueRefund a u False \<in> set cs"
  shows "\<exists>e. r = Some e \<and> issue_refund ext = Inl e \<and> claims s' = claims s \<and> policies s' = policies s
            \<and> map_of (claims s) claim_id \<noteq> None
            \<and> cs = [GenerateProof, VerifyProof, IssueRefund a u False]"
  using assms
  by (auto simp: process_claim_async_try_def call_def fail_claim_def Let_def
        split: option.splits sum.splits prod.splits if_splits list.splits)

text \<open>
  A run of the handler whose refund call has raised after the attestation was stored
  answers with the 500 response that carries the error and the attestation transaction;
  it writes or changes no claim record, and the policies are unchanged.
\<close>

lemma claim_refund_failure_writes_nothing:
  assumes "claim ext now new_id req s = (resp, s')" and "calls s' = calls s @ cs"
    and "IssueRefund a u False \<in> set cs"
  shows "(\<exists>e att. issue_refund ext = Inl e \<and> store_proof_on_chain ext = Inr att
           \<and> resp = ClaimRefundFailed (''Refund failed: '' @ e) att)
       \<and> claims s' = claims s \<and> policies s' = policies s"
proof -
  from assms have "cs \<noteq> []" by auto
  with assms have "calls s' \<noteq> calls s" by simp
  with assms claim_sync_or_quiet [of ext now new_id req s resp s']
  obtain policy hr where
    "claim_sync ext now new_id (or_empty (cr_policy_id req)) policy hr (cr_idempotency_key req) s = (resp, s')"
    by blast
  from claim_sync_refund_failed [OF this assms(2,3)] show ?thesis by blast
qed

text \<open>
  A run of the worker whose refund call has raised turns the stored claim \<^verbatim>\<open>failed\<close>,
  with the error, and leaves the policies unchanged.
\<close>

lemma worker_refund_failure_marks_claim_failed:
  assumes "process_claim_async ext now claim_id w = w'" and "calls w' = calls w @ cs"
    and "IssueRefund a u False \<in> set cs"
  shows "(\<exists>c e. map_of (claims w') claim_id = Some c \<and> c_status c = ''failed''
            \<and> issue_refund ext = Inl e \<and> c_error c = Some e)
       \<and> policies w' = policies w"
proof -
  obtain r w1 where tr: "process_claim_async_try ext now claim_id w = (r, w1)"
    by (cases "process_claim_async_try ext now claim_id w")
  have ct: "calls w' = calls w1"
    using assms tr by (auto simp: process_claim_async_def split: option.splits)
  with assms have "calls w1 = calls w @ cs" by simp
  from try_refund_failed [OF tr this assms(3)]
  obtain e where e: "r = Some e" "issue_refund ext = Inl e" "claims w1 = claims w"
    "policies w1 = policies w" "map_of (claims w) claim_id \<noteq> None"
    by blast
  from e(5) obtain c where c: "map_of (claims w) claim_id = Some c" by auto
  from assms tr e c have t: "w' = w1\<lparr>claims := AList.update claim_id
                               (c\<lparr>c_status := ''failed'', c_error := Some e, c_failed_at := Some now\<rparr>)
                               (claims w1)\<rparr>"
    by (auto simp: process_claim_async_def)
  show ?thesis using t e c by (simp add: update_conv')
qed

lemma worker_refund_failure_example:
  "map_option c_status (get_proof ''C1'' (process_claim_async refund_fails 120 ''C1'' (one_async_claim None)))
       = Some ''failed''
   \<and> map_option c_error (get_proof ''C1'' (process_claim_async refund_fails 120 ''C1'' (one_async_claim None)))
       = Some (Some ''network error'')
   \<and> policies (process_claim_async refund_fails 120 ''C1'' (one_async_claim None))
       = policies (one_async_claim None)"
  by code_simp

text \<open>
  Claim C5 does not hold in the synchronous mode. In this run the attestation succeeds
  and the refund raises: the attestation transaction is in the 500 response only, there
  is no claim record to turn \<^verbatim>\<open>failed\<close>, and the lookup of the claim id finds nothing;
  the policy is unchanged.
\<close>

theorem sync_refund_failure_leaves_no_claim_record:
  "calls (snd (claim refund_fails 100 ''C1'' (sync_request None) demo_server))
     = [GenerateProof, VerifyProof, StoreProofOnChain ''C1'' True, IssueRefund ''Alice'' 10000 False]
   \<and> fst (claim refund_fails 100 ''C1'' (sync_request None) demo_server)
       = ClaimRefundFailed ''Refund failed: network error'' ''ATTESTATION''
   \<and> claims (snd (claim refund_fails 100 ''C1'' (sync_request None) demo_server)) = []
   \<and> get_proof ''C1'' (snd (claim refund_fails 100 ''C1'' (sync_request None) demo_server)) = None
   \<and> policies (snd (claim refund_fails 100 ''C1'' (sync_request None) demo_server))
       = policies demo_server"
  by code_simp

text \<open>
  The synchronous path, for comparison: a run of \<^verbatim>\<open>claim\<close> that answers with a paid
  claim has stored the attestation before the refund, and the claim carries the
  attestation transaction.
\<close>

lemma sync_paid_after_attestation:
  assumes "claim ext now new_id req s = (ClaimPaid c, s')"
  shows "\<exists>att to_address amount.
           calls s' = calls s @ [GenerateProof, VerifyProof, StoreProofOnChain new_id True,
                                 IssueRefund to_address amount True]
           \<and> store_proof_on_chain ext = Inr att \<and> c_attestation_tx_hash c = Some att
           \<and> c_claim_id c = new_id \<and> c_status c = ''paid''
           \<and> map_of (claims s') new_id = Some c"
  using assms
  by (auto simp: claim_def claim_async_def claim_sync_def idempotent_response_def call_def Let_def
        update_conv' split: option.splits sum.splits prod.splits if_splits)

text \<open>
  Claim C1 does not hold on the asynchronous path. The worker reaches \<^verbatim>\<open>paid\<close> with
  the calls \<^verbatim>\<open>generate_proof\<close>, \<^verbatim>\<open>verify_proof\<close>, \<^verbatim>\<open>issue_refund\<close>: there is no
  attestation call, and the paid claim has no attestation transaction.
\<close>

theorem async_worker_pays_without_attestation:
  "map_option c_status (get_proof ''C1'' (process_claim_async services_ok 120 ''C1'' (one_async_claim None)))
     = Some ''paid''
   \<and> map_option c_attestation_tx_hash
        (get_proof ''C1'' (process_claim_async services_ok 120 ''C1'' (one_async_claim None))) = Some None
   \<and> calls (process_claim_async services_ok 120 ''C1'' (one_async_claim None))
       = [GenerateProof, VerifyProof, IssueRefund ''Alice'' 10000 True]"
  by code_simp

text \<open>
  Claim C2 does not hold. Two asynchronous submissions for one policy, the second before
  the first worker has finished, are both accepted (the policy is still \<^verbatim>\<open>active\<close>),
  and the worker does not read the policy's status: both claims end \<^verbatim>\<open>paid\<close> and
  \<^verbatim>\<open>issue_refund\<close> is called twice.
\<close>

theorem two_async_claims_both_paid:
  "map fst (claims two_async_claims) = [''C1'', ''C2'']
   \<and> map (c_status \<circ> snd) (claims two_async_claims) = [''processing'', ''processing'']
   \<and> map fst (claims two_workers_done) = [''C1'', ''C2'']
   \<and> map (c_policy_id \<circ> snd) (claims two_workers_done) = [''P1'', ''P1'']
   \<and> map (c_status \<circ> snd) (claims two_workers_done) = [''paid'', ''paid'']
   \<and> calls two_workers_done
     = [GenerateProof, VerifyProof, IssueRefund ''Alice'' 10000 True,
        GenerateProof, VerifyProof, IssueRefund ''Alice'' 10000 True]"
  by code_simp

text \<open>
  The idempotent response for a stored claim that has the four keys (a paid claim): its
  id, policy id and status as stored, with no call and no change of state.
\<close>

lemma idempotent_replay_of_paid_claim:
  assumes "\<not> falsy (cr_policy_id req)" and "\<not> empty_response (cr_http_response req)"
    and "cr_idempotency_key req = Some key" and "key \<noteq> []"
    and "find_idempotent key (claims s) = Some c"
    and "c_proof c = Some prf" and "c_public_inputs c = Some inputs"
    and "c_payout_amount c = Some payout" and "c_refund_tx_hash c = Some tx"
  shows "claim ext now new_id req s
           = (ClaimReplayed (c_claim_id c) (c_policy_id c) prf inputs payout tx (c_status c), s)"
  using assms
  by (simp add: claim_def falsy_def or_empty_def idempotent_response_def)

text \<open>
  Claim C3 does not hold for a claim in flight. The retry of an asynchronous submission
  under the same idempotency key finds the \<^verbatim>\<open>processing\<close> record, which has no
  \<^verbatim>\<open>proof\<close> key yet, and building the idempotent response raises \<^verbatim>\<open>KeyError\<close>:
  the answer is a 500, not the claim's id and status.
\<close>

theorem idempotent_retry_of_processing_claim_raises:
  "fst (claim services_ok 100 ''C1'' (async_request (Some ''K'')) demo_server) = ClaimAccepted ''C1'' ''P1''
   \<and> map_option c_status (get_proof ''C1'' (one_async_claim (Some ''K''))) = Some ''processing''
   \<and> fst (claim services_ok 101 ''C2'' (async_request (Some ''K'')) (one_async_claim (Some ''K'')))
       = ClaimUnhandled ''KeyError: proof''
   \<and> claim_http_status
        (fst (claim services_ok 101 ''C2'' (async_request (Some ''K'')) (one_async_claim (Some ''K'')))) = 500"
  by code_simp

end
